theory Spec2Isabelle
  imports Main "HOL-Library.Word" "HOL-Library.Sublist"
begin

section \<open>Values of the program\<close>

text \<open>
  A Python \<open>str\<close> is a sequence of code points, and \<open>len\<close> and slicing count code
  points; it is modelled as a list of natural numbers, one per code point. The literals
  of the source are ASCII and are written \<open>py ''...''\<close>. A \<open>bytes\<close> value is a list of
  8-bit words.
\<close>

type_synonym pystr = "nat list"

type_synonym bytes = "8 word list"

definition py :: "string \<Rightarrow> pystr" where
  "py s = map of_char s"

text \<open>
  The values \<open>json.loads\<close> and \<open>response.json()\<close> return: \<open>None\<close>, \<open>bool\<close>,
  \<open>int\<close>, \<open>float\<close> (a finite double \<open>m * 2 ^ e\<close> as \<open>JFloat m e\<close>), \<open>str\<close>,
  \<open>list\<close> and \<open>dict\<close>. A \<open>dict\<close> is an association list in insertion order; the
  parser leaves one entry per key, and \<open>map_of\<close> is the lookup.
\<close>

datatype json =
    JNull
  | JBool bool
  | JInt int
  | JFloat int int
  | JStr pystr
  | JArr "json list"
  | JObj "(pystr \<times> json) list"

type_synonym pydict = "(pystr \<times> json) list"

datatype exn =
    TypeError
  | AttributeError
  | ValueError
  | KeyError
  | UnicodeDecodeError

text \<open>Truth value of an object, as \<open>if x:\<close> and \<open>elif x:\<close> test it.\<close>

fun py_truthy :: "json \<Rightarrow> bool" where
  "py_truthy JNull = False"
| "py_truthy (JBool b) = b"
| "py_truthy (JInt n) = (n \<noteq> 0)"
| "py_truthy (JFloat m e) = (m \<noteq> 0)"
| "py_truthy (JStr s) = (s \<noteq> [])"
| "py_truthy (JArr xs) = (xs \<noteq> [])"
| "py_truthy (JObj d) = (d \<noteq> [])"

text \<open>\<open>d.get(k, default)\<close> on a \<open>dict\<close>.\<close>

definition dict_get :: "pydict \<Rightarrow> pystr \<Rightarrow> json \<Rightarrow> json" where
  "dict_get d k dflt = (case map_of d k of None \<Rightarrow> dflt | Some v \<Rightarrow> v)"

text \<open>\<open>len(x)\<close>: defined on \<open>str\<close>, \<open>list\<close> and \<open>dict\<close>, a \<open>TypeError\<close> elsewhere.\<close>

fun py_len :: "json \<Rightarrow> exn + int" where
  "py_len (JStr s) = Inr (int (length s))"
| "py_len (JArr xs) = Inr (int (length xs))"
| "py_len (JObj d) = Inr (int (length d))"
| "py_len _ = Inl TypeError"

text \<open>
  \<open>xs[lo:hi]\<close> on a sequence: a negative bound counts from the end, and both bounds
  are clipped to the sequence.
\<close>

definition clip_index :: "nat \<Rightarrow> int \<Rightarrow> nat" where
  "clip_index n k = (if k < 0 then nat (max 0 (k + int n)) else min (nat k) n)"

definition seq_slice :: "'a list \<Rightarrow> int \<Rightarrow> int \<Rightarrow> 'a list" where
  "seq_slice xs lo hi =
     (let a = clip_index (length xs) lo; b = clip_index (length xs) hi
      in take (b - a) (drop a xs))"

text \<open>
  \<open>x[lo:hi]\<close> on a parsed value: a \<open>str\<close> and a \<open>list\<close> are sliced; a \<open>dict\<close>
  refuses a slice as a key (\<open>TypeError\<close>, a \<open>KeyError\<close> from Python 3.12 on) and the
  other values are not subscriptable.
\<close>

fun py_slice :: "json \<Rightarrow> int \<Rightarrow> int \<Rightarrow> exn + json" where
  "py_slice (JStr s) lo hi = Inr (JStr (seq_slice s lo hi))"
| "py_slice (JArr xs) lo hi = Inr (JArr (seq_slice xs lo hi))"
| "py_slice _ lo hi = Inl TypeError"

text \<open>\<open>range(start, stop, step)\<close> as the list of its values; a zero step is a \<open>ValueError\<close>.\<close>

function range_up :: "int \<Rightarrow> int \<Rightarrow> int \<Rightarrow> int list" where
  "range_up i stop step =
     (if 0 < step \<and> i < stop then i # range_up (i + step) stop step else [])"
  by pat_completeness auto
termination
  by (relation "measure (\<lambda>(i, stop, step). nat (stop - i))") auto

function range_down :: "int \<Rightarrow> int \<Rightarrow> int \<Rightarrow> int list" where
  "range_down i stop step =
     (if step < 0 \<and> stop < i then i # range_down (i + step) stop step else [])"
  by pat_completeness auto
termination
  by (relation "measure (\<lambda>(i, stop, step). nat (i - stop))") auto

definition py_range :: "int \<Rightarrow> int \<Rightarrow> int \<Rightarrow> exn + int list" where
  "py_range start stop step =
     (if step = 0 then Inl ValueError
      else if 0 < step then Inr (range_up start stop step)
      else Inr (range_down start stop step))"

section \<open>Configuration\<close>

text \<open>
  The keys of the configuration dictionary that the handler reads; \<open>None\<close> is a key
  that the file does not set. \<open>verify_ssl\<close> is a boolean or a string.
\<close>

datatype verify = VBool bool | VStr pystr

record config =
  target_url :: "pystr option"
  verify_ssl :: "verify option"
  request_timeout :: "int option"
  streaming_chunk_size :: "int option"

section \<open>The streaming emitter\<close>

text \<open>
  \<open>_simulate_streaming\<close> is a generator of chunks, each a \<open>dict\<close>. Every exception it
  can raise is raised before its first \<open>yield\<close>, so a run is either the exception or
  the whole list of chunks. \<open>int(time.time())\<close> is read from \<open>now\<close>: \<open>now k\<close> is the
  \<open>k\<close>-th reading of the clock by one run. \<open>json.dumps\<close> is the parameter \<open>dumps\<close>.
\<close>

definition chunk :: "pydict \<Rightarrow> pydict \<Rightarrow> json \<Rightarrow> json" where
  "chunk base delta finish =
     JObj (base @
       [(py ''choices'',
         JArr [JObj [(py ''index'', JInt 0),
                     (py ''delta'', JObj delta),
                     (py ''finish_reason'', finish)]])])"

definition base_event_data :: "int \<Rightarrow> pydict \<Rightarrow> pydict" where
  "base_event_data t response_data =
     [(py ''id'', dict_get response_data (py ''id'') (JStr (py ''chatcmpl-default-id''))),
      (py ''object'', dict_get response_data (py ''object'') (JStr (py ''chat.completion.chunk''))),
      (py ''created'', dict_get response_data (py ''created'') (JInt t)),
      (py ''model'', dict_get response_data (py ''model'') (JStr (py ''gpt-3.5-turbo-0613'')))]"

text \<open>The body of \<open>for i in range(...)\<close>, over the values of the range.\<close>

fun content_loop :: "pydict \<Rightarrow> json \<Rightarrow> int \<Rightarrow> int list \<Rightarrow> exn + json list" where
  "content_loop base content step [] = Inr []"
| "content_loop base content step (i # idxs) =
     (case py_slice content i (i + step) of
        Inl e \<Rightarrow> Inl e
      | Inr text_chunk \<Rightarrow>
          (case content_loop base content step idxs of
             Inl e \<Rightarrow> Inl e
           | Inr rest \<Rightarrow>
               Inr (chunk base
                      (if i = 0
                       then [(py ''role'', JStr (py ''assistant'')), (py ''content'', text_chunk)]
                       else [(py ''content'', text_chunk)])
                      JNull # rest)))"

definition stream_content :: "pydict \<Rightarrow> json \<Rightarrow> int \<Rightarrow> exn + json list" where
  "stream_content base content step =
     (case py_len content of
        Inl e \<Rightarrow> Inl e
      | Inr n \<Rightarrow>
          (case py_range 0 n step of
             Inl e \<Rightarrow> Inl e
           | Inr idxs \<Rightarrow>
               (case content_loop base content step idxs of
                  Inl e \<Rightarrow> Inl e
                | Inr chunks \<Rightarrow> Inr (chunks @ [chunk base [] (JStr (py ''stop''))]))))"

definition get_streaming_chunk_size :: "config \<Rightarrow> int" where
  "get_streaming_chunk_size cfg = (case streaming_chunk_size cfg of None \<Rightarrow> 50 | Some c \<Rightarrow> c)"

text \<open>The branch of a response whose \<open>choices\<close> is a non-empty list, on its first choice.\<close>

definition emit_choice :: "config \<Rightarrow> (nat \<Rightarrow> int) \<Rightarrow> pydict \<Rightarrow> json \<Rightarrow> exn + json list" where
  "emit_choice cfg now response_data choice =
     (case choice of
        JObj c \<Rightarrow>
          (case dict_get c (py ''message'') (JObj []) of
             JObj message \<Rightarrow>
               (let content = dict_get message (py ''content'') (JStr []);
                    tool_calls = dict_get message (py ''tool_calls'') JNull;
                    base = base_event_data (now 0) response_data
                in if py_truthy tool_calls then
                     Inr [chunk base
                            [(py ''role'', JStr (py ''assistant'')),
                             (py ''content'', JNull),
                             (py ''tool_calls'', tool_calls)]
                            (JStr (py ''tool_calls''))]
                   else if py_truthy content then
                     stream_content base content (get_streaming_chunk_size cfg)
                   else
                     Inr [chunk base [] (JStr (py ''stop''))])
           | _ \<Rightarrow> Inl AttributeError)
      | _ \<Rightarrow> Inl AttributeError)"

text \<open>The branch of a \<open>dict\<close> with no usable \<open>choices\<close>: the response wrapped in two chunks.\<close>

definition escape_hatch :: "(json \<Rightarrow> pystr) \<Rightarrow> (nat \<Rightarrow> int) \<Rightarrow> pydict \<Rightarrow> json list" where
  "escape_hatch dumps now response_data =
     [chunk [(py ''id'', dict_get response_data (py ''id'') (JStr (py ''chatcmpl-default-id''))),
             (py ''object'', JStr (py ''chat.completion.chunk'')),
             (py ''created'', JInt (now 0)),
             (py ''model'', JStr (py ''unknown-model''))]
            [(py ''content'', JStr (dumps (JObj response_data)))]
            JNull,
      chunk [(py ''id'', dict_get response_data (py ''id'') (JStr (py ''chatcmpl-default-id''))),
             (py ''object'', JStr (py ''chat.completion.chunk'')),
             (py ''created'', JInt (now 1)),
             (py ''model'', JStr (py ''unknown-model''))]
            []
            (JStr (py ''stop''))]"

text \<open>
  \<open>"choices" in response_data\<close> is a key test on a \<open>dict\<close>, a membership test on a
  \<open>list\<close>, a substring test on a \<open>str\<close> and a \<open>TypeError\<close> on the other values. Where
  it holds of a \<open>list\<close> or a \<open>str\<close>, \<open>response_data["choices"]\<close> is a \<open>TypeError\<close>;
  where it does not, \<open>response_data.get\<close> is an \<open>AttributeError\<close>.
\<close>

definition simulate_streaming ::
    "config \<Rightarrow> (json \<Rightarrow> pystr) \<Rightarrow> (nat \<Rightarrow> int) \<Rightarrow> json \<Rightarrow> exn + json list" where
  "simulate_streaming cfg dumps now response_data =
     (case response_data of
        JObj d \<Rightarrow>
          (case map_of d (py ''choices'') of
             Some (JArr (choice # rest)) \<Rightarrow> emit_choice cfg now d choice
           | _ \<Rightarrow> Inr (escape_hatch dumps now d))
      | JArr xs \<Rightarrow>
          (if JStr (py ''choices'') \<in> set xs then Inl TypeError else Inl AttributeError)
      | JStr s \<Rightarrow>
          (if sublist (py ''choices'') s then Inl TypeError else Inl AttributeError)
      | _ \<Rightarrow> Inl TypeError)"

text \<open>Reading an emitted chunk.\<close>

fun jget :: "pystr \<Rightarrow> json \<Rightarrow> json option" where
  "jget k (JObj d) = map_of d k"
| "jget k _ = None"

definition first_choice :: "json \<Rightarrow> json option" where
  "first_choice c = (case jget (py ''choices'') c of Some (JArr (e # es)) \<Rightarrow> Some e | _ \<Rightarrow> None)"

definition delta_of :: "json \<Rightarrow> json option" where
  "delta_of c = (case first_choice c of Some e \<Rightarrow> jget (py ''delta'') e | None \<Rightarrow> None)"

definition finish_reason_of :: "json \<Rightarrow> json option" where
  "finish_reason_of c = (case first_choice c of Some e \<Rightarrow> jget (py ''finish_reason'') e | None \<Rightarrow> None)"

definition delta_content :: "json \<Rightarrow> json option" where
  "delta_content c = (case delta_of c of Some d \<Rightarrow> jget (py ''content'') d | None \<Rightarrow> None)"

text \<open>The text a chunk contributes: its \<open>delta.content\<close> where that is a \<open>str\<close>.\<close>

definition content_text :: "json \<Rightarrow> pystr" where
  "content_text c = (case delta_content c of Some (JStr s) \<Rightarrow> s | _ \<Rightarrow> [])"

definition emitted :: "exn + json list \<Rightarrow> json list" where
  "emitted r = (case r of Inl e \<Rightarrow> [] | Inr cs \<Rightarrow> cs)"

text \<open>The branch of \<open>_simulate_streaming\<close> that \<open>if tool_calls:\<close> selects.\<close>

definition tool_call_branch :: "json \<Rightarrow> bool" where
  "tool_call_branch response_data =
     (case response_data of
        JObj d \<Rightarrow>
          (case map_of d (py ''choices'') of
             Some (JArr (JObj c # rest)) \<Rightarrow>
               (case dict_get c (py ''message'') (JObj []) of
                  JObj message \<Rightarrow> py_truthy (dict_get message (py ''tool_calls'') JNull)
                | _ \<Rightarrow> False)
           | _ \<Rightarrow> False)
      | _ \<Rightarrow> False)"

text \<open>The test of the first \<open>if\<close> of \<open>_simulate_streaming\<close> on a \<open>dict\<close>.\<close>

definition has_choices :: "pydict \<Rightarrow> bool" where
  "has_choices d = (case map_of d (py ''choices'') of Some (JArr (x # xs)) \<Rightarrow> True | _ \<Rightarrow> False)"

text \<open>
  The shape of a chat completion, as the data model of the specification has it: a
  \<open>dict\<close> whose \<open>choices\<close>, where it is a list, is a list of choices; a choice is a
  \<open>dict\<close> whose \<open>message\<close>, where it has one, is a \<open>dict\<close> with a \<open>content\<close> that is a
  string, \<open>None\<close> or absent, and \<open>tool_calls\<close> that are a list, \<open>None\<close> or absent.
\<close>

definition message_shape :: "json \<Rightarrow> bool" where
  "message_shape msg =
     (case msg of
        JObj m \<Rightarrow>
          (case map_of m (py ''content'') of
             None \<Rightarrow> True | Some JNull \<Rightarrow> True | Some (JStr s) \<Rightarrow> True | Some _ \<Rightarrow> False)
          \<and> (case map_of m (py ''tool_calls'') of
                None \<Rightarrow> True | Some JNull \<Rightarrow> True | Some (JArr xs) \<Rightarrow> True | Some _ \<Rightarrow> False)
      | _ \<Rightarrow> False)"

definition choice_shape :: "json \<Rightarrow> bool" where
  "choice_shape choice =
     (case choice of
        JObj c \<Rightarrow> (case map_of c (py ''message'') of None \<Rightarrow> True | Some msg \<Rightarrow> message_shape msg)
      | _ \<Rightarrow> False)"

definition chat_completion :: "json \<Rightarrow> bool" where
  "chat_completion r =
     (case r of
        JObj d \<Rightarrow>
          (case map_of d (py ''choices'') of
             Some (JArr choices) \<Rightarrow> list_all choice_shape choices
           | _ \<Rightarrow> True)
      | _ \<Rightarrow> False)"

text \<open>The number of pieces of length \<open>c\<close> that cover \<open>n\<close> items: \<open>n / c\<close> rounded up.\<close>

definition ceil_div :: "nat \<Rightarrow> nat \<Rightarrow> nat" where
  "ceil_div n c = (n + c - 1) div c"

section \<open>The request handler\<close>

text \<open>
  The functions of the Python library that the handler calls on data are parameters:
  \<open>int\<close> on a \<open>str\<close> (\<open>None\<close> is its \<open>ValueError\<close>), \<open>bytes.decode('utf-8')\<close>
  (\<open>None\<close> is its \<open>UnicodeDecodeError\<close>), \<open>str.encode('utf-8')\<close>, \<open>json.loads\<close>
  and \<open>response.json()\<close> on the body of a response (\<open>None\<close> is their
  \<open>JSONDecodeError\<close>), and \<open>json.dumps\<close>.
\<close>

record library =
  py_int :: "pystr \<Rightarrow> int option"
  utf8_decode :: "bytes \<Rightarrow> pystr option"
  utf8_encode :: "pystr \<Rightarrow> bytes"
  json_loads :: "pystr \<Rightarrow> json option"
  json_dumps :: "json \<Rightarrow> pystr"
  response_json :: "bytes \<Rightarrow> json option"

text \<open>
  Header fields are pairs of a name and a value, looked up without regard to the case of
  the name; the first match is the answer. \<open>py_lower\<close> is \<open>str.lower\<close> on the ASCII
  letters, which decide every comparison with an ASCII literal that the handler makes.
\<close>

type_synonym header_list = "(pystr \<times> pystr) list"

definition py_lower :: "pystr \<Rightarrow> pystr" where
  "py_lower s = map (\<lambda>c. if 65 \<le> c \<and> c \<le> 90 then c + 32 else c) s"

definition header_get :: "header_list \<Rightarrow> pystr \<Rightarrow> pystr option" where
  "header_get hs k = map_of (map (\<lambda>(n, v). (py_lower n, v)) hs) (py_lower k)"

definition header_get_default :: "header_list \<Rightarrow> pystr \<Rightarrow> pystr \<Rightarrow> pystr" where
  "header_get_default hs k dflt = (case header_get hs k of None \<Rightarrow> dflt | Some v \<Rightarrow> v)"

text \<open>
  An exception raised by \<open>requests.request\<close>, by the \<open>except\<close> clauses it is an
  instance of, and its text. In the library \<open>SSLError\<close> is a \<open>ConnectionError\<close>, and
  \<open>ConnectTimeout\<close>, raised when the deadline passes while connecting, is both a
  \<open>ConnectionError\<close> and a \<open>Timeout\<close>; \<open>ReadTimeout\<close> is a \<open>Timeout\<close> only.
\<close>

record fault =
  is_SSLError :: bool
  is_ConnectionError :: bool
  is_Timeout :: bool
  text_of :: pystr

definition ConnectTimeout :: "pystr \<Rightarrow> fault" where
  "ConnectTimeout msg =
     \<lparr>is_SSLError = False, is_ConnectionError = True, is_Timeout = True, text_of = msg\<rparr>"

definition ReadTimeout :: "pystr \<Rightarrow> fault" where
  "ReadTimeout msg =
     \<lparr>is_SSLError = False, is_ConnectionError = False, is_Timeout = True, text_of = msg\<rparr>"

record response =
  status_code :: int
  headers :: header_list
  content :: bytes

record outbound =
  out_method :: pystr
  out_url :: pystr
  out_headers :: header_list
  out_data :: "bytes option"
  out_json :: "json option"
  out_verify :: verify
  out_timeout :: "int option"

text \<open>What a handler does, in order: reads of the request, the call of the backend, and
  the calls that write the reply.\<close>

datatype event =
    RfileRead int
  | RequestsRequest outbound
  | SendError int pystr
  | SendResponse int
  | SendHeader pystr pystr
  | EndHeaders
  | WfileWrite bytes
  | WfileFlush

text \<open>The replies to the client among the events: the status lines, and their codes.\<close>

fun reply_status :: "event \<Rightarrow> int option" where
  "reply_status (SendError code msg) = Some code"
| "reply_status (SendResponse code) = Some code"
| "reply_status _ = None"

definition replies :: "event list \<Rightarrow> int list" where
  "replies evs = List.map_filter reply_status evs"

fun is_backend_call :: "event \<Rightarrow> bool" where
  "is_backend_call (RequestsRequest req) = True"
| "is_backend_call _ = False"

definition backend_calls :: "event list \<Rightarrow> nat" where
  "backend_calls evs = length (filter is_backend_call evs)"

definition get_target_url :: "config \<Rightarrow> pystr" where
  "get_target_url cfg = (case target_url cfg of None \<Rightarrow> py ''http://localhost:8000'' | Some u \<Rightarrow> u)"

definition get_verify_ssl :: "config \<Rightarrow> verify" where
  "get_verify_ssl cfg =
     (case verify_ssl cfg of
        None \<Rightarrow> VBool True
      | Some (VBool b) \<Rightarrow> VBool b
      | Some (VStr s) \<Rightarrow>
          (if py_lower s \<notin> set [py ''true'', py ''false''] then VStr s
           else VBool (py_lower s = py ''true'')))"

definition get_request_timeout :: "config \<Rightarrow> int option" where
  "get_request_timeout cfg = request_timeout cfg"

text \<open>The arguments that \<open>_perform_request\<close> gives to \<open>requests.request\<close>.\<close>

definition outbound_request ::
    "config \<Rightarrow> pystr \<Rightarrow> pystr \<Rightarrow> header_list \<Rightarrow> bytes option \<Rightarrow> json option \<Rightarrow> outbound" where
  "outbound_request cfg method path hdrs data json_data =
     (let url = get_target_url cfg;
          verify = (if prefix (py ''https://'') url then get_verify_ssl cfg else VBool True);
          timeout = get_request_timeout cfg;
          forward_headers = filter (\<lambda>(k, v). v \<noteq> [])
            [(py ''Authorization'', header_get_default hdrs (py ''Authorization'') []),
             (py ''Content-Type'', header_get_default hdrs (py ''Content-Type'') (py ''application/json'')),
             (py ''Accept'', header_get_default hdrs (py ''Accept'') (py ''*/*''))]
      in \<lparr>out_method = method, out_url = url @ path, out_headers = forward_headers,
          out_data = data, out_json = json_data, out_verify = verify,
          out_timeout = timeout\<rparr>)"

text \<open>
  \<open>_perform_request\<close>: the events, and the response or \<open>None\<close>. \<open>backend\<close> is the
  outcome of \<open>requests.request\<close> on a request: a response, or the exception it raises,
  which the first \<open>except\<close> clause that it is an instance of handles.
\<close>

definition perform_request ::
    "config \<Rightarrow> (outbound \<Rightarrow> fault + response) \<Rightarrow> pystr \<Rightarrow> pystr \<Rightarrow> header_list
       \<Rightarrow> bytes option \<Rightarrow> json option \<Rightarrow> event list \<times> response option" where
  "perform_request cfg backend method path hdrs data json_data =
     (let req = outbound_request cfg method path hdrs data json_data
      in case backend req of
           Inr r \<Rightarrow> ([RequestsRequest req], Some r)
         | Inl e \<Rightarrow>
             (if is_SSLError e then
                ([RequestsRequest req, SendError 502 (py ''SSL Error: '' @ text_of e)], None)
              else if is_ConnectionError e then
                ([RequestsRequest req,
                  SendError 503 (py ''Service Unavailable: Connection Error: '' @ text_of e)], None)
              else if is_Timeout e then
                ([RequestsRequest req, SendError 504 (py ''Gateway Timeout'')], None)
              else
                ([RequestsRequest req,
                  SendError 500 (py ''Internal Server Error: '' @ text_of e)], None)))"

text \<open>\<open>if response:\<close> on a response of the library is its \<open>ok\<close>: no status from 400 to 599.\<close>

definition response_ok :: "response \<Rightarrow> bool" where
  "response_ok r = (\<not> (400 \<le> status_code r \<and> status_code r < 600))"

text \<open>\<open>response.iter_content(chunk_size)\<close>: the body in blocks of that size.\<close>

function iter_content :: "nat \<Rightarrow> bytes \<Rightarrow> bytes list" where
  "iter_content n bs =
     (if n = 0 \<or> bs = [] then [] else take n bs # iter_content n (drop n bs))"
  by pat_completeness auto
termination
  by (relation "measure (\<lambda>(n, bs). length bs)") auto

text \<open>The reply that copies the backend's: its status, three of its headers, its body.\<close>

definition passthrough :: "response \<Rightarrow> event list" where
  "passthrough r =
     SendResponse (status_code r) #
     map (\<lambda>(k, v). SendHeader k v)
       (filter (\<lambda>(k, v). py_lower k \<in> set [py ''content-type'', py ''content-length'', py ''date''])
          (headers r)) @
     [EndHeaders] @
     map WfileWrite (iter_content 8192 (content r))"

definition do_GET ::
    "config \<Rightarrow> (outbound \<Rightarrow> fault + response) \<Rightarrow> pystr \<Rightarrow> header_list \<Rightarrow> event list" where
  "do_GET cfg backend path hdrs =
     (if path = py ''/v1/models'' then
        (case perform_request cfg backend (py ''GET'') path hdrs None None of
           (evs, Some r) \<Rightarrow> (if response_ok r then evs @ passthrough r else evs)
         | (evs, None) \<Rightarrow> evs)
      else [SendError 404 (py ''Not Found'')])"

text \<open>
  \<open>self.rfile.read(n)\<close> on the buffered reader of the connection: \<open>n\<close> bytes of what
  the client sent, all of it for \<open>-1\<close>, and a \<open>ValueError\<close> below \<open>-1\<close>.
\<close>

definition rfile_read :: "bytes \<Rightarrow> int \<Rightarrow> exn + bytes" where
  "rfile_read rfile n =
     (if n < - 1 then Inl ValueError
      else if n = - 1 then Inr rfile
      else Inr (take (nat n) rfile))"

text \<open>\<open>d[k] = v\<close> on a \<open>dict\<close>: the entry of \<open>k\<close> is replaced where it is, or added last.\<close>

fun dict_set :: "pydict \<Rightarrow> pystr \<Rightarrow> json \<Rightarrow> pydict" where
  "dict_set [] k v = [(k, v)]"
| "dict_set (p # ps) k v = (if fst p = k then (k, v) # ps else p # dict_set ps k v)"

text \<open>\<open>request_data['stream'] = False\<close>: only a \<open>dict\<close> takes a string as a key.\<close>

fun set_stream_false :: "json \<Rightarrow> exn + json" where
  "set_stream_false (JObj d) = Inr (JObj (dict_set d (py ''stream'') (JBool False)))"
| "set_stream_false _ = Inl TypeError"

definition sse_headers :: "event list" where
  "sse_headers =
     [SendResponse 200,
      SendHeader (py ''Content-Type'') (py ''text/event-stream''),
      SendHeader (py ''Cache-Control'') (py ''no-cache''),
      SendHeader (py ''Connection'') (py ''close''),
      EndHeaders]"

definition sse_events :: "library \<Rightarrow> json list \<Rightarrow> event list" where
  "sse_events lib chunks =
     concat (map (\<lambda>c. [WfileWrite (utf8_encode lib (py ''data: '' @ json_dumps lib c @ [10, 10])),
                        WfileFlush]) chunks) @
     [WfileWrite (utf8_encode lib (py ''data: [DONE]'' @ [10, 10])), WfileFlush]"

text \<open>The part of \<open>do_POST\<close> after \<open>_perform_request\<close> has returned a response.\<close>

definition answer_post :: "library \<Rightarrow> config \<Rightarrow> (nat \<Rightarrow> int) \<Rightarrow> response \<Rightarrow> event list \<times> exn option" where
  "answer_post lib cfg now r =
     (if \<not> response_ok r then ([], None)
      else if status_code r = 200 \<and>
              sublist (py ''application/json'') (header_get_default (headers r) (py ''Content-Type'') [])
      then
        (case response_json lib (content r) of
           None \<Rightarrow> (sse_headers @ [WfileWrite (content r)], None)
         | Some response_json_data \<Rightarrow>
             (case simulate_streaming cfg (json_dumps lib) now response_json_data of
                Inl e \<Rightarrow> (sse_headers, Some e)
              | Inr chunks \<Rightarrow> (sse_headers @ sse_events lib chunks, None)))
      else (passthrough r @ [WfileFlush], None))"

text \<open>
  \<open>do_POST\<close>: the events, and the exception that leaves the handler, if one does.
  \<open>self.headers['Content-Length']\<close> is \<open>None\<close> for a header that is not there, and
  \<open>int(None)\<close> is a \<open>TypeError\<close>.
\<close>

definition do_POST ::
    "library \<Rightarrow> config \<Rightarrow> (outbound \<Rightarrow> fault + response) \<Rightarrow> (nat \<Rightarrow> int) \<Rightarrow> pystr
       \<Rightarrow> header_list \<Rightarrow> bytes \<Rightarrow> event list \<times> exn option" where
  "do_POST lib cfg backend now path hdrs rfile =
     (case header_get hdrs (py ''Content-Length'') of
        None \<Rightarrow> ([], Some TypeError)
      | Some v \<Rightarrow>
          (case py_int lib v of
             None \<Rightarrow> ([], Some ValueError)
           | Some content_length \<Rightarrow>
               (case rfile_read rfile content_length of
                  Inl e \<Rightarrow> ([RfileRead content_length], Some e)
                | Inr post_data_bytes \<Rightarrow>
                    (case utf8_decode lib post_data_bytes of
                       None \<Rightarrow> ([RfileRead content_length], Some UnicodeDecodeError)
                     | Some txt \<Rightarrow>
                         (case json_loads lib txt of
                            None \<Rightarrow>
                              ([RfileRead content_length,
                                SendError 400 (py ''Bad Request: Invalid JSON payload'')], None)
                          | Some request_data \<Rightarrow>
                              (case set_stream_false request_data of
                                 Inl e \<Rightarrow> ([RfileRead content_length], Some e)
                               | Inr forced \<Rightarrow>
                                   (case perform_request cfg backend (py ''POST'') path hdrs None
                                           (Some forced) of
                                      (evs, None) \<Rightarrow> (RfileRead content_length # evs, None)
                                    | (evs, Some r) \<Rightarrow>
                                        (case answer_post lib cfg now r of
                                           (out, raised) \<Rightarrow>
                                             (RfileRead content_length # evs @ out, raised)))))))))"

text \<open>
  A library for the examples. It answers as Python does on the texts the examples give
  it: \<open>int\<close> reads a string of ASCII digits, the codec is the one of ASCII, and the two
  parsers know the text \<open>{}\<close> and refuse the rest.
\<close>

definition ascii :: "string \<Rightarrow> bytes" where
  "ascii s = map of_char s"

definition digits_value :: "pystr \<Rightarrow> int option" where
  "digits_value s =
     (if s \<noteq> [] \<and> list_all (\<lambda>c. 48 \<le> c \<and> c \<le> 57) s
      then Some (foldl (\<lambda>a c. 10 * a + (int c - 48)) 0 s) else None)"

definition example_loads :: "pystr \<Rightarrow> json option" where
  "example_loads s = (if s = py ''{}'' then Some (JObj []) else None)"

definition example_lib :: library where
  "example_lib =
     \<lparr>py_int = digits_value,
      utf8_decode = (\<lambda>b. if list_all (\<lambda>w. w < 128) b then Some (map unat b) else None),
      utf8_encode = map of_nat,
      json_loads = example_loads,
      json_dumps = (\<lambda>j. py ''{}''),
      response_json = (\<lambda>b. if list_all (\<lambda>w. w < 128) b then example_loads (map unat b) else None)\<rparr>"

definition example_config :: config where
  "example_config =
     \<lparr>target_url = None, verify_ssl = None, request_timeout = None,
      streaming_chunk_size = Some 5\<rparr>"

text \<open>
  Requests and backends for the examples: a body that is not JSON and the body \<open>{}\<close>,
  each with its length or with no \<open>Content-Length\<close>; a backend whose connection times
  out, and one that answers 200 with a JSON content type and a body that is not JSON.
\<close>

definition bad_body_headers :: header_list where
  "bad_body_headers = [(py ''Content-Type'', py ''application/json''), (py ''Content-Length'', py ''8'')]"

definition no_length_headers :: header_list where
  "no_length_headers = [(py ''Content-Type'', py ''application/json'')]"

definition bad_length_headers :: header_list where
  "bad_length_headers = [(py ''Content-Length'', py ''eight'')]"

definition empty_object_headers :: header_list where
  "empty_object_headers = [(py ''content-length'', py ''2'')]"

definition timing_out_backend :: "outbound \<Rightarrow> fault + response" where
  "timing_out_backend req = Inl (ConnectTimeout (py ''timed out''))"

definition garbled_response :: response where
  "garbled_response =
     \<lparr>status_code = 200,
      headers = [(py ''Content-Type'', py ''application/json''),
                 (py ''Content-Length'', py ''8''),
                 (py ''X-Request-Id'', py ''r-1'')],
      content = ascii ''not json''\<rparr>"

definition garbled_backend :: "outbound \<Rightarrow> fault + response" where
  "garbled_backend req = Inr garbled_response"

text \<open>Responses for the examples: a text of thirteen characters, and a text with a tool call.\<close>

definition hello_message :: pydict where
  "hello_message = [(py ''role'', JStr (py ''assistant'')), (py ''content'', JStr (py ''Hello, world!''))]"

definition hello_choice :: pydict where
  "hello_choice = [(py ''index'', JInt 0), (py ''message'', JObj hello_message)]"

definition hello_response :: pydict where
  "hello_response = [(py ''id'', JStr (py ''cmpl-1'')), (py ''choices'', JArr [JObj hello_choice])]"

definition tool_message :: pydict where
  "tool_message =
     [(py ''role'', JStr (py ''assistant'')),
      (py ''content'', JStr (py ''Hi'')),
      (py ''tool_calls'', JArr [JObj [(py ''id'', JStr (py ''call_1''))]])]"

definition tool_response :: pydict where
  "tool_response =
     [(py ''id'', JStr (py ''cmpl-2'')),
      (py ''choices'', JArr [JObj [(py ''index'', JInt 0), (py ''message'', JObj tool_message)]])]"

definition completion_response :: pydict where
  "completion_response =
     [(py ''id'', JStr (py ''cmpl-3'')),
      (py ''object'', JStr (py ''chat.completion'')),
      (py ''created'', JInt 1700000000),
      (py ''model'', JStr (py ''llama'')),
      (py ''choices'', JArr [JObj hello_choice])]"

definition empty_choices_response :: pydict where
  "empty_choices_response =
     [(py ''id'', JStr (py ''cmpl-4'')),
      (py ''object'', JStr (py ''chat.completion'')),
      (py ''created'', JInt 1700000000),
      (py ''model'', JStr (py ''llama'')),
      (py ''choices'', JArr [])]"

text \<open>The chunks of the two examples.\<close>

definition hello_chunks :: "pydict \<Rightarrow> json list" where
  "hello_chunks base =
     [chunk base [(py ''role'', JStr (py ''assistant'')), (py ''content'', JStr (py ''Hello''))] JNull,
      chunk base [(py ''content'', JStr (py '', wor''))] JNull,
      chunk base [(py ''content'', JStr (py ''ld!''))] JNull,
      chunk base [] (JStr (py ''stop''))]"

definition tool_chunks :: "json list" where
  "tool_chunks =
     [chunk (base_event_data 0 tool_response)
        [(py ''role'', JStr (py ''assistant'')),
         (py ''content'', JNull),
         (py ''tool_calls'', JArr [JObj [(py ''id'', JStr (py ''call_1''))]])]
        (JStr (py ''tool_calls''))]"

section \<open>Properties of the emitter\<close>

declare range_up.simps [simp del] range_down.simps [simp del] iter_content.simps [simp del]

lemma py_eq_iff [simp]: "py a = py b \<longleftrightarrow> a = b"
  unfolding py_def by (simp add: inj_map_eq_map inj_of_char)

lemma base_event_data_no_choices [simp]:
  "map_of (base_event_data t d) (py ''choices'') = None"
  by (simp add: base_event_data_def)

lemma jget_choices_chunk:
  "map_of base (py ''choices'') = None \<Longrightarrow>
   jget (py ''choices'') (chunk base delta fin) =
     Some (JArr [JObj [(py ''index'', JInt 0), (py ''delta'', JObj delta), (py ''finish_reason'', fin)]])"
  by (simp add: chunk_def map_add_def)

lemma first_choice_chunk:
  "map_of base (py ''choices'') = None \<Longrightarrow>
   first_choice (chunk base delta fin) =
     Some (JObj [(py ''index'', JInt 0), (py ''delta'', JObj delta), (py ''finish_reason'', fin)])"
  by (simp add: first_choice_def jget_choices_chunk)

lemma delta_of_chunk:
  "map_of base (py ''choices'') = None \<Longrightarrow> delta_of (chunk base delta fin) = Some (JObj delta)"
  by (simp add: delta_of_def first_choice_chunk)

lemma finish_reason_of_chunk:
  "map_of base (py ''choices'') = None \<Longrightarrow> finish_reason_of (chunk base delta fin) = Some fin"
  by (simp add: finish_reason_of_def first_choice_chunk)

lemma jget_base_chunk:
  "map_of base k = Some v \<Longrightarrow> jget k (chunk base delta fin) = Some v"
  by (simp add: chunk_def map_add_def)


lemma less_ceil_div_iff: "0 < c \<Longrightarrow> k < ceil_div n c \<longleftrightarrow> k * c < n"
proof -
  assume c: "0 < c"
  have "k < ceil_div n c \<longleftrightarrow> Suc k \<le> (n + c - 1) div c"
    by (simp add: ceil_div_def Suc_le_eq)
  also have "\<dots> \<longleftrightarrow> Suc k * c \<le> n + c - 1"
    using c by (simp add: less_eq_div_iff_mult_less_eq)
  also have "\<dots> \<longleftrightarrow> k * c < n"
    using c by (cases c) auto
  finally show ?thesis .
qed

lemma ceil_div_least:
  assumes "0 < c"
  shows "n \<le> ceil_div n c * c" and "n \<le> m * c \<Longrightarrow> ceil_div n c \<le> m"
proof -
  show "n \<le> ceil_div n c * c"
    using less_ceil_div_iff [OF assms, of "ceil_div n c" n] by simp
  show "n \<le> m * c \<Longrightarrow> ceil_div n c \<le> m"
    using less_ceil_div_iff [OF assms, of m n] by simp
qed

lemma range_up_multiples:
  assumes "0 < c"
  shows "range_up (int (j * c)) (int n) (int c) = map (\<lambda>k. int (k * c)) [j..<ceil_div n c]"
proof (induction "ceil_div n c - j" arbitrary: j)
  case 0
  then have "\<not> j < ceil_div n c" by simp
  then have "\<not> j * c < n" using less_ceil_div_iff [OF assms] by simp
  then have "\<not> int (j * c) < int n" by linarith
  then have "range_up (int (j * c)) (int n) (int c) = []"
    by (subst range_up.simps) simp
  with 0 show ?case by simp
next
  case (Suc d)
  then have lt: "j < ceil_div n c" by simp
  then have "j * c < n" using less_ceil_div_iff [OF assms] by simp
  then have here: "int (j * c) < int n" by linarith
  have "d = ceil_div n c - Suc j" using Suc.hyps(2) by simp
  then have rest: "range_up (int (Suc j * c)) (int n) (int c) = map (\<lambda>k. int (k * c)) [Suc j..<ceil_div n c]"
    by (rule Suc.hyps(1))
  have next_i: "int (j * c) + int c = int (Suc j * c)" by simp
  have "range_up (int (j * c)) (int n) (int c) = int (j * c) # range_up (int (j * c) + int c) (int n) (int c)"
    using assms here by (subst range_up.simps) simp
  also have "\<dots> = int (j * c) # map (\<lambda>k. int (k * c)) [Suc j..<ceil_div n c]"
    by (simp only: next_i rest)
  also have "\<dots> = map (\<lambda>k. int (k * c)) [j..<ceil_div n c]"
    using lt by (simp add: upt_conv_Cons)
  finally show ?case .
qed

lemma slice_nat: "seq_slice xs (int a) (int a + int c) = take c (drop a xs)"
proof -
  have "nat (int a + int c) = a + c" by simp
  then show ?thesis
    by (auto simp: seq_slice_def clip_index_def Let_def min_def)
qed

lemma content_loop_str:
  "content_loop base (JStr s) step idxs =
     Inr (map (\<lambda>i. chunk base
                 (if i = 0
                  then [(py ''role'', JStr (py ''assistant'')), (py ''content'', JStr (seq_slice s i (i + step)))]
                  else [(py ''content'', JStr (seq_slice s i (i + step)))])
                 JNull) idxs)"
  by (induction idxs) simp_all

lemma concat_pieces:
  "concat (map (\<lambda>k. take c (drop (k * c) s)) [0..<n]) = take (n * c) s"
proof (induction n)
  case 0
  show ?case by simp
next
  case (Suc n)
  have "take (Suc n * c) s = take (n * c + c) s" by (simp add: add.commute)
  also have "\<dots> = take (n * c) s @ take c (drop (n * c) s)" by (rule take_add)
  finally show ?case using Suc by simp
qed


lemma stream_content_str:
  assumes "0 < c"
  shows "stream_content base (JStr s) (int c) =
     Inr (map (\<lambda>k. chunk base
                 (if k = 0
                  then [(py ''role'', JStr (py ''assistant'')), (py ''content'', JStr (take c (drop (k * c) s)))]
                  else [(py ''content'', JStr (take c (drop (k * c) s)))])
                 JNull) [0..<ceil_div (length s) c]
          @ [chunk base [] (JStr (py ''stop''))])"
proof -
  have r: "py_range 0 (int (length s)) (int c) = Inr (map (\<lambda>k. int (k * c)) [0..<ceil_div (length s) c])"
    using assms range_up_multiples [OF assms, of 0 "length s"] by (simp add: py_range_def)
  have piece: "\<And>k. seq_slice s (int (k * c)) (int (k * c) + int c) = take c (drop (k * c) s)"
    by (rule slice_nat)
  have first: "\<And>k. (int (k * c) = 0) = (k = 0)" using assms by simp
  have "content_loop base (JStr s) (int c) (map (\<lambda>k. int (k * c)) [0..<ceil_div (length s) c]) =
        Inr (map (\<lambda>k. chunk base
                 (if k = 0
                  then [(py ''role'', JStr (py ''assistant'')), (py ''content'', JStr (take c (drop (k * c) s)))]
                  else [(py ''content'', JStr (take c (drop (k * c) s)))])
                 JNull) [0..<ceil_div (length s) c])"
    unfolding content_loop_str map_map comp_def piece first ..
  then show ?thesis
    by (simp add: stream_content_def r)
qed

lemma emit_choice_content:
  assumes "dict_get c (py ''message'') (JObj []) = JObj m"
    and "\<not> py_truthy (dict_get m (py ''tool_calls'') JNull)"
    and "py_truthy (dict_get m (py ''content'') (JStr []))"
  shows "emit_choice cfg now d (JObj c) =
           stream_content (base_event_data (now 0) d) (dict_get m (py ''content'') (JStr []))
             (get_streaming_chunk_size cfg)"
  using assms by (simp add: emit_choice_def Let_def)

text \<open>
  C1, as amended. For a response whose first choice has a message with a non-empty string
  \<open>content\<close> of length \<open>L\<close> and no truthy \<open>tool_calls\<close>, and a chunk size \<open>C > 0\<close>, the
  emitter returns \<open>ceil (L / C) + 1\<close> chunks: the \<open>k\<close>-th of the first \<open>ceil (L / C)\<close>
  carries as \<open>delta.content\<close> the \<open>C\<close> characters of the content from position \<open>k * C\<close>
  (fewer, and at least one, in the last), the last chunk has the empty delta, and the
  contents of the chunks before it, concatenated in order, are the content.
\<close>

theorem content_streaming:
  assumes choices: "map_of d (py ''choices'') = Some (JArr (JObj c # rest))"
    and message: "dict_get c (py ''message'') (JObj []) = JObj m"
    and no_tools: "\<not> py_truthy (dict_get m (py ''tool_calls'') JNull)"
    and content_str: "map_of m (py ''content'') = Some (JStr s)" "s \<noteq> []"
    and csize: "get_streaming_chunk_size cfg = int C" "0 < C"
  shows "\<exists>chunks. simulate_streaming cfg dumps now (JObj d) = Inr chunks
           \<and> length chunks = ceil_div (length s) C + 1
           \<and> (\<forall>k < ceil_div (length s) C.
                 delta_content (chunks ! k) = Some (JStr (take C (drop (k * C) s)))
                 \<and> (Suc k < ceil_div (length s) C \<longrightarrow> length (content_text (chunks ! k)) = C)
                 \<and> 0 < length (content_text (chunks ! k)) \<and> length (content_text (chunks ! k)) \<le> C)
           \<and> delta_of (last chunks) = Some (JObj [])
           \<and> concat (map content_text (butlast chunks)) = s"
proof -
  let ?n = "ceil_div (length s) C"
  let ?base = "base_event_data (now 0) d"
  let ?piece = "\<lambda>k. take C (drop (k * C) s)"
  let ?mk = "\<lambda>k. chunk ?base
                 (if k = 0
                  then [(py ''role'', JStr (py ''assistant'')), (py ''content'', JStr (?piece k))]
                  else [(py ''content'', JStr (?piece k))])
                 JNull"
  let ?chunks = "map ?mk [0..<?n] @ [chunk ?base [] (JStr (py ''stop''))]"
  have content: "dict_get m (py ''content'') (JStr []) = JStr s"
    using content_str by (simp add: dict_get_def)
  have run: "simulate_streaming cfg dumps now (JObj d) = Inr ?chunks"
    using choices message no_tools content_str csize
    by (simp add: simulate_streaming_def emit_choice_content content stream_content_str)
  have len: "length ?chunks = ?n + 1" by simp
  have dc: "\<And>k. delta_content (?mk k) = Some (JStr (?piece k))"
    by (simp add: delta_content_def delta_of_chunk)
  have ct: "\<And>k. content_text (?mk k) = ?piece k"
    by (simp add: content_text_def dc)
  have nth: "\<And>k. k < ?n \<Longrightarrow> ?chunks ! k = ?mk k"
    by (simp add: nth_append)
  have full: "\<And>k. Suc k < ?n \<Longrightarrow> length (?piece k) = C"
  proof -
    fix k assume "Suc k < ?n"
    then have "Suc k * C < length s" using less_ceil_div_iff [OF csize(2)] by simp
    then show "length (?piece k) = C" by simp
  qed
  have some: "\<And>k. k < ?n \<Longrightarrow> 0 < length (?piece k) \<and> length (?piece k) \<le> C"
  proof -
    fix k assume "k < ?n"
    then have "k * C < length s" using less_ceil_div_iff [OF csize(2)] by simp
    then show "0 < length (?piece k) \<and> length (?piece k) \<le> C" using csize(2) by simp
  qed
  have pieces: "\<forall>k < ?n. delta_content (?chunks ! k) = Some (JStr (?piece k))
                 \<and> (Suc k < ?n \<longrightarrow> length (content_text (?chunks ! k)) = C)
                 \<and> 0 < length (content_text (?chunks ! k)) \<and> length (content_text (?chunks ! k)) \<le> C"
    using full some by (simp add: nth dc ct)
  have last: "delta_of (last ?chunks) = Some (JObj [])"
    by (simp add: delta_of_chunk)
  have "map content_text (butlast ?chunks) = map ?piece [0..<?n]"
    by (simp add: butlast_append ct comp_def)
  then have "concat (map content_text (butlast ?chunks)) = take (?n * C) s"
    by (simp only: concat_pieces)
  also have "\<dots> = s"
    using ceil_div_least(1) [OF csize(2), of "length s"] by simp
  finally have cat: "concat (map content_text (butlast ?chunks)) = s" .
  show ?thesis
    using run len pieces last cat by blast
qed


theorem content_streaming_witness:
  "map_of hello_response (py ''choices'') = Some (JArr [JObj hello_choice])
   \<and> dict_get hello_choice (py ''message'') (JObj []) = JObj hello_message
   \<and> \<not> py_truthy (dict_get hello_message (py ''tool_calls'') JNull)
   \<and> map_of hello_message (py ''content'') = Some (JStr (py ''Hello, world!''))
   \<and> get_streaming_chunk_size example_config = int 5
   \<and> (\<exists>chunks. simulate_streaming example_config (\<lambda>j. []) (\<lambda>k. 0) (JObj hello_response) = Inr chunks
          \<and> length chunks = 4
          \<and> delta_content (chunks ! 1) = Some (JStr (py '', wor''))
          \<and> delta_of (last chunks) = Some (JObj [])
          \<and> concat (map content_text (butlast chunks)) = py ''Hello, world!'')"
proof -
  have h1: "map_of hello_response (py ''choices'') = Some (JArr (JObj hello_choice # []))"
    by (simp add: hello_response_def)
  have h2: "dict_get hello_choice (py ''message'') (JObj []) = JObj hello_message"
    by (simp add: hello_choice_def dict_get_def)
  have h3: "\<not> py_truthy (dict_get hello_message (py ''tool_calls'') JNull)"
    by (simp add: hello_message_def dict_get_def)
  have h4: "map_of hello_message (py ''content'') = Some (JStr (py ''Hello, world!''))"
    by (simp add: hello_message_def)
  have h5: "py ''Hello, world!'' \<noteq> []"
    by (simp add: py_def)
  have h6: "get_streaming_chunk_size example_config = int 5"
    by (simp add: get_streaming_chunk_size_def example_config_def)
  have n: "ceil_div (length (py ''Hello, world!'')) 5 = 3"
    by (simp add: ceil_div_def py_def)
  have p: "take 5 (drop 5 (py ''Hello, world!'')) = py '', wor''"
    by (simp add: py_def)
  from content_streaming [OF h1 h2 h3 h4 h5 h6, of "\<lambda>j. []" "\<lambda>k. 0"]
  obtain chunks where
    "simulate_streaming example_config (\<lambda>j. []) (\<lambda>k. 0) (JObj hello_response) = Inr chunks"
    "length chunks = 4"
    "delta_content (chunks ! 1) = Some (JStr (py '', wor''))"
    "delta_of (last chunks) = Some (JObj [])"
    "concat (map content_text (butlast chunks)) = py ''Hello, world!''"
    unfolding n using p by fastforce
  then show ?thesis
    using h1 h2 h3 h4 h6 by blast
qed

text \<open>
  C1 as stated fails where the message has a tool call beside its text: the emitter
  returns one chunk, not \<open>ceil (2 / 5) + 1\<close>.
\<close>

theorem content_streaming_counterexample:
  "map_of tool_message (py ''content'') = Some (JStr (py ''Hi''))
   \<and> map finish_reason_of (emitted (simulate_streaming example_config (\<lambda>j. []) (\<lambda>k. 0) (JObj tool_response)))
       = [Some (JStr (py ''tool_calls''))]
   \<and> ceil_div (length (py ''Hi'')) 5 + 1 = 2"
proof -
  have "ceil_div (length (py ''Hi'')) 5 + 1 = 2"
    by (simp add: ceil_div_def py_def)
  then show ?thesis
    by (simp add: simulate_streaming_def emit_choice_def tool_response_def tool_message_def
          dict_get_def Let_def emitted_def finish_reason_of_chunk)
qed

lemma content_loop_form:
  "content_loop base txt step idxs = Inr cs \<Longrightarrow>
   \<forall>c \<in> set cs. \<exists>delta. c = chunk base delta JNull"
proof (induction idxs arbitrary: cs)
  case Nil
  then show ?case by simp
next
  case (Cons i idxs)
  then show ?case
    by (auto split: sum.splits)
qed

lemma stream_content_form:
  assumes "stream_content base txt step = Inr cs"
  shows "\<exists>body. cs = body @ [chunk base [] (JStr (py ''stop''))]
           \<and> (\<forall>c \<in> set body. \<exists>delta. c = chunk base delta JNull)"
proof -
  from assms show ?thesis
    unfolding stream_content_def
    by (auto split: sum.splits dest: content_loop_form)
qed

lemma emit_choice_form:
  assumes "emit_choice cfg now d choice = Inr cs"
  shows "\<exists>c m. choice = JObj c \<and> dict_get c (py ''message'') (JObj []) = JObj m
           \<and> (if py_truthy (dict_get m (py ''tool_calls'') JNull) then
                 cs = [chunk (base_event_data (now 0) d)
                         [(py ''role'', JStr (py ''assistant'')),
                          (py ''content'', JNull),
                          (py ''tool_calls'', dict_get m (py ''tool_calls'') JNull)]
                         (JStr (py ''tool_calls''))]
               else if py_truthy (dict_get m (py ''content'') (JStr [])) then
                 stream_content (base_event_data (now 0) d) (dict_get m (py ''content'') (JStr []))
                   (get_streaming_chunk_size cfg) = Inr cs
               else cs = [chunk (base_event_data (now 0) d) [] (JStr (py ''stop''))])"
  using assms unfolding emit_choice_def Let_def
  by (auto split: json.splits if_splits)

lemma has_choices_iff:
  "has_choices d \<longleftrightarrow> (\<exists>choice rest. map_of d (py ''choices'') = Some (JArr (choice # rest)))"
  unfolding has_choices_def
  by (simp split: option.splits json.splits list.splits)

lemma simulate_streaming_dict:
  assumes "simulate_streaming cfg dumps now r = Inr cs"
  shows "\<exists>d. r = JObj d
           \<and> (if has_choices d
               then \<exists>choice rest. map_of d (py ''choices'') = Some (JArr (choice # rest))
                       \<and> emit_choice cfg now d choice = Inr cs
               else cs = escape_hatch dumps now d)"
  using assms unfolding simulate_streaming_def has_choices_def
  by (auto split: json.splits option.splits list.splits if_splits)

lemma simulate_streaming_form:
  assumes "simulate_streaming cfg dumps now r = Inr cs"
  shows "\<exists>body base delta.
           cs = body @ [chunk base delta
                          (JStr (if tool_call_branch r then py ''tool_calls'' else py ''stop''))]
           \<and> map_of base (py ''choices'') = None
           \<and> (\<forall>c \<in> set body. \<exists>b dl. c = chunk b dl JNull \<and> map_of b (py ''choices'') = None)"
proof -
  from simulate_streaming_dict [OF assms] obtain d where r: "r = JObj d"
    and branch: "if has_choices d
               then \<exists>choice rest. map_of d (py ''choices'') = Some (JArr (choice # rest))
                       \<and> emit_choice cfg now d choice = Inr cs
               else cs = escape_hatch dumps now d"
    by blast
  show ?thesis
  proof (cases "has_choices d")
    case False
    then have cs: "cs = escape_hatch dumps now d" using branch by simp
    have nt: "\<not> tool_call_branch r"
      using False unfolding r tool_call_branch_def has_choices_def
      by (auto split: option.splits json.splits list.splits)
    let ?b0 = "[(py ''id'', dict_get d (py ''id'') (JStr (py ''chatcmpl-default-id''))),
                (py ''object'', JStr (py ''chat.completion.chunk'')),
                (py ''created'', JInt (now 0)),
                (py ''model'', JStr (py ''unknown-model''))]"
    let ?b1 = "[(py ''id'', dict_get d (py ''id'') (JStr (py ''chatcmpl-default-id''))),
                (py ''object'', JStr (py ''chat.completion.chunk'')),
                (py ''created'', JInt (now 1)),
                (py ''model'', JStr (py ''unknown-model''))]"
    let ?first = "chunk ?b0 [(py ''content'', JStr (dumps (JObj d)))] JNull"
    have split: "cs = [?first] @ [chunk ?b1 []
         (JStr (if tool_call_branch r then py ''tool_calls'' else py ''stop''))]"
      unfolding cs escape_hatch_def using nt by simp
    have b1: "map_of ?b1 (py ''choices'') = None" by simp
    have b0: "\<forall>c \<in> set [?first]. \<exists>b dl. c = chunk b dl JNull \<and> map_of b (py ''choices'') = None"
    proof -
      have "map_of ?b0 (py ''choices'') = None" by simp
      then show ?thesis by auto
    qed
    from split b1 b0 show ?thesis by blast
  next
    case True
    then obtain choice rest where ch: "map_of d (py ''choices'') = Some (JArr (choice # rest))"
      and em: "emit_choice cfg now d choice = Inr cs"
      using branch by auto
    from emit_choice_form [OF em] obtain c m where choice: "choice = JObj c"
      and msg: "dict_get c (py ''message'') (JObj []) = JObj m"
      and cases: "if py_truthy (dict_get m (py ''tool_calls'') JNull) then
                 cs = [chunk (base_event_data (now 0) d)
                         [(py ''role'', JStr (py ''assistant'')),
                          (py ''content'', JNull),
                          (py ''tool_calls'', dict_get m (py ''tool_calls'') JNull)]
                         (JStr (py ''tool_calls''))]
               else if py_truthy (dict_get m (py ''content'') (JStr [])) then
                 stream_content (base_event_data (now 0) d) (dict_get m (py ''content'') (JStr []))
                   (get_streaming_chunk_size cfg) = Inr cs
               else cs = [chunk (base_event_data (now 0) d) [] (JStr (py ''stop''))]"
      by blast
    have fin: "\<And>body base delta.
        cs = body @ [chunk base delta
                       (JStr (if tool_call_branch r then py ''tool_calls'' else py ''stop''))] \<Longrightarrow>
        map_of base (py ''choices'') = None \<Longrightarrow>
        (\<forall>c \<in> set body. \<exists>b dl. c = chunk b dl JNull \<and> map_of b (py ''choices'') = None) \<Longrightarrow>
        ?thesis"
      by blast
    have tb: "tool_call_branch r = py_truthy (dict_get m (py ''tool_calls'') JNull)"
      unfolding r tool_call_branch_def using ch choice msg by simp
    show ?thesis
    proof (cases "py_truthy (dict_get m (py ''tool_calls'') JNull)")
      case True
      with cases have "cs = [] @ [chunk (base_event_data (now 0) d)
                         [(py ''role'', JStr (py ''assistant'')),
                          (py ''content'', JNull),
                          (py ''tool_calls'', dict_get m (py ''tool_calls'') JNull)]
                         (JStr (py ''tool_calls''))]" by simp
      then show ?thesis using tb True
        by (intro fin [of "[]" "base_event_data (now 0) d"]) simp_all
    next
      case nt: False
      show ?thesis
      proof (cases "py_truthy (dict_get m (py ''content'') (JStr []))")
        case True
        with nt cases have "stream_content (base_event_data (now 0) d)
            (dict_get m (py ''content'') (JStr [])) (get_streaming_chunk_size cfg) = Inr cs"
          by simp
        from stream_content_form [OF this] obtain body where
          "cs = body @ [chunk (base_event_data (now 0) d) [] (JStr (py ''stop''))]"
          "\<forall>c \<in> set body. \<exists>delta. c = chunk (base_event_data (now 0) d) delta JNull"
          by blast
        then have "cs = body @ [chunk (base_event_data (now 0) d) []
              (JStr (if tool_call_branch r then py ''tool_calls'' else py ''stop''))]"
          and "\<forall>c \<in> set body. \<exists>b dl. c = chunk b dl JNull \<and> map_of b (py ''choices'') = None"
          using tb nt base_event_data_no_choices by (simp, blast)
        then show ?thesis
          by (intro fin [of body "base_event_data (now 0) d" "[]"]) simp_all
      next
        case False
        with nt cases have "cs = [] @ [chunk (base_event_data (now 0) d) [] (JStr (py ''stop''))]"
          by simp
        then show ?thesis using tb nt
          by (intro fin [of "[]" "base_event_data (now 0) d" "[]"]) simp_all
      qed
    qed
  qed
qed


lemma hello_run:
  assumes "map_of d (py ''choices'') = Some (JArr [JObj hello_choice])"
  shows "simulate_streaming example_config dumps now (JObj d)
           = Inr (hello_chunks (base_event_data (now 0) d))"
proof -
  let ?base = "base_event_data (now 0) d"
  have size: "get_streaming_chunk_size example_config = int 5"
    by (simp add: get_streaming_chunk_size_def example_config_def)
  have n: "ceil_div (length (py ''Hello, world!'')) 5 = 3"
    by (simp add: ceil_div_def py_def)
  have up: "[0..<3] = [0, 1, 2]"
    by (simp add: upt_rec)
  have p0: "take 5 (py ''Hello, world!'') = py ''Hello''"
    and p1: "take 5 (drop 5 (py ''Hello, world!'')) = py '', wor''"
    and p2: "take 5 (drop 10 (py ''Hello, world!'')) = py ''ld!''"
    by (simp_all add: py_def)
  have "stream_content ?base (JStr (py ''Hello, world!'')) (int 5)
          = Inr (map (\<lambda>k. chunk ?base
                 (if k = 0
                  then [(py ''role'', JStr (py ''assistant'')),
                        (py ''content'', JStr (take 5 (drop (k * 5) (py ''Hello, world!''))))]
                  else [(py ''content'', JStr (take 5 (drop (k * 5) (py ''Hello, world!''))))])
                 JNull) [0..<ceil_div (length (py ''Hello, world!'')) 5]
          @ [chunk ?base [] (JStr (py ''stop''))])"
    by (rule stream_content_str) simp
  then have sc: "stream_content ?base (JStr (py ''Hello, world!'')) (int 5) = Inr (hello_chunks ?base)"
    unfolding n up hello_chunks_def by (simp add: p0 p1 p2)
  have "emit_choice example_config now d (JObj hello_choice)
          = stream_content ?base (JStr (py ''Hello, world!'')) (int 5)"
    by (simp add: emit_choice_def hello_choice_def hello_message_def dict_get_def Let_def size py_def)
  then have em: "emit_choice example_config now d (JObj hello_choice) = Inr (hello_chunks ?base)"
    by (simp only: sc)
  show ?thesis
    by (simp add: simulate_streaming_def assms em)
qed

lemma hello_response_choices:
  "map_of hello_response (py ''choices'') = Some (JArr [JObj hello_choice])"
  by (simp add: hello_response_def)

lemma completion_response_choices:
  "map_of completion_response (py ''choices'') = Some (JArr [JObj hello_choice])"
  by (simp add: completion_response_def)

lemma tool_run:
  "simulate_streaming example_config (\<lambda>j. []) (\<lambda>k. 0) (JObj tool_response) = Inr tool_chunks"
  by (simp add: simulate_streaming_def emit_choice_def tool_response_def tool_message_def
        tool_chunks_def dict_get_def Let_def)

text \<open>
  A response of the shape of a chat completion makes the emitter return, whatever chunk
  size other than 0 is configured.
\<close>

lemma stream_content_str_returns:
  "step \<noteq> 0 \<Longrightarrow> \<exists>cs. stream_content base (JStr s) step = Inr cs"
  by (simp add: stream_content_def py_range_def content_loop_str)

lemma message_shape_content:
  assumes "message_shape (JObj m)"
  shows "dict_get m (py ''content'') (JStr []) = JNull
      \<or> (\<exists>s. dict_get m (py ''content'') (JStr []) = JStr s)"
proof (cases "map_of m (py ''content'')")
  case None
  then show ?thesis by (simp add: dict_get_def)
next
  case (Some v)
  with assms have "v = JNull \<or> (\<exists>s. v = JStr s)"
    unfolding message_shape_def by (cases v) simp_all
  with Some show ?thesis by (auto simp: dict_get_def)
qed

lemma choice_shape_message:
  assumes "choice_shape choice"
  shows "\<exists>c m. choice = JObj c \<and> dict_get c (py ''message'') (JObj []) = JObj m \<and> message_shape (JObj m)"
proof -
  from assms obtain c where c: "choice = JObj c"
    unfolding choice_shape_def by (cases choice) simp_all
  show ?thesis
  proof (cases "map_of c (py ''message'')")
    case None
    then have "dict_get c (py ''message'') (JObj []) = JObj []" by (simp add: dict_get_def)
    moreover have "message_shape (JObj [])" by (simp add: message_shape_def)
    ultimately show ?thesis using c by blast
  next
    case (Some msg)
    with assms c have ms: "message_shape msg" by (simp add: choice_shape_def)
    then obtain m where "msg = JObj m"
      unfolding message_shape_def by (cases msg) simp_all
    with Some ms c show ?thesis by (simp add: dict_get_def)
  qed
qed


lemma emit_choice_returns:
  assumes "choice_shape choice" and "get_streaming_chunk_size cfg \<noteq> 0"
  shows "\<exists>cs. emit_choice cfg now d choice = Inr cs"
proof -
  from choice_shape_message [OF assms(1)] obtain c m where c: "choice = JObj c"
    and m: "dict_get c (py ''message'') (JObj []) = JObj m"
    and ms: "message_shape (JObj m)"
    by blast
  show ?thesis
  proof (cases "py_truthy (dict_get m (py ''tool_calls'') JNull)")
    case True
    then show ?thesis
      unfolding c emit_choice_def by (simp add: m Let_def)
  next
    case nt: False
    from message_shape_content [OF ms] show ?thesis
    proof
      assume "dict_get m (py ''content'') (JStr []) = JNull"
      then show ?thesis
        unfolding c emit_choice_def using nt by (simp add: m Let_def)
    next
      assume "\<exists>s. dict_get m (py ''content'') (JStr []) = JStr s"
      then obtain s where s: "dict_get m (py ''content'') (JStr []) = JStr s" by blast
      from stream_content_str_returns [OF assms(2)] obtain cs where
        sc: "stream_content (base_event_data (now 0) d) (JStr s) (get_streaming_chunk_size cfg) = Inr cs"
        by blast
      show ?thesis
        unfolding c emit_choice_def using nt by (simp add: m s sc Let_def)
    qed
  qed
qed

lemma simulate_streaming_returns:
  assumes "chat_completion r" and "get_streaming_chunk_size cfg \<noteq> 0"
  shows "\<exists>chunks. simulate_streaming cfg dumps now r = Inr chunks"
proof -
  from assms(1) obtain d where r: "r = JObj d"
    unfolding chat_completion_def by (cases r) simp_all
  show ?thesis
  proof (cases "has_choices d")
    case True
    then obtain choice rest where ch: "map_of d (py ''choices'') = Some (JArr (choice # rest))"
      unfolding has_choices_iff by blast
    with assms(1) have "choice_shape choice"
      unfolding r chat_completion_def by simp
    from emit_choice_returns [OF this assms(2)] show ?thesis
      unfolding r simulate_streaming_def by (simp add: ch)
  next
    case False
    have "simulate_streaming cfg dumps now (JObj d) = Inr (escape_hatch dumps now d)"
    proof (cases "map_of d (py ''choices'')")
      case None
      then show ?thesis by (simp add: simulate_streaming_def)
    next
      case (Some v)
      show ?thesis
      proof (cases v)
        case (JArr xs)
        with False Some have "xs = []"
          unfolding has_choices_def by (cases xs) simp_all
        with Some JArr show ?thesis by (simp add: simulate_streaming_def)
      qed (simp_all add: simulate_streaming_def Some)
    qed
    then show ?thesis unfolding r by blast
  qed
qed

text \<open>The finish reasons of a run that returns, whatever its input.\<close>

lemma finish_reasons_of_run:
  assumes "simulate_streaming cfg dumps now r = Inr chunks"
  shows "chunks \<noteq> []
         \<and> (\<forall>c \<in> set (butlast chunks). finish_reason_of c = Some JNull)
         \<and> finish_reason_of (last chunks) =
             Some (JStr (if tool_call_branch r then py ''tool_calls'' else py ''stop''))"
proof -
  from simulate_streaming_form [OF assms] obtain body base delta where
    cs: "chunks = body @ [chunk base delta
                          (JStr (if tool_call_branch r then py ''tool_calls'' else py ''stop''))]"
    and base: "map_of base (py ''choices'') = None"
    and body: "\<forall>c \<in> set body. \<exists>b dl. c = chunk b dl JNull \<and> map_of b (py ''choices'') = None"
    by blast
  have "\<forall>c \<in> set body. finish_reason_of c = Some JNull"
  proof
    fix c assume "c \<in> set body"
    with body obtain b dl where "c = chunk b dl JNull" "map_of b (py ''choices'') = None"
      by blast
    then show "finish_reason_of c = Some JNull"
      by (simp add: finish_reason_of_chunk)
  qed
  then show ?thesis
    unfolding cs using base by (simp add: finish_reason_of_chunk)
qed

text \<open>
  C4. On a chat completion, with a chunk size other than 0, the emitter returns a
  sequence of at least one chunk; every chunk before the last has \<open>finish_reason\<close>
  \<open>None\<close>, and the last has \<open>"tool_calls"\<close> in the tool-call branch and \<open>"stop"\<close> in the
  other branches (text, empty message, no usable \<open>choices\<close>).
\<close>

theorem finish_reasons:
  assumes "chat_completion r" and "get_streaming_chunk_size cfg \<noteq> 0"
  shows "\<exists>chunks. simulate_streaming cfg dumps now r = Inr chunks
           \<and> chunks \<noteq> []
           \<and> (\<forall>c \<in> set (butlast chunks). finish_reason_of c = Some JNull)
           \<and> finish_reason_of (last chunks) =
               Some (JStr (if tool_call_branch r then py ''tool_calls'' else py ''stop''))"
proof -
  from simulate_streaming_returns [OF assms] obtain chunks where
    run: "simulate_streaming cfg dumps now r = Inr chunks"
    by blast
  from finish_reasons_of_run [OF run] run show ?thesis
    by blast
qed

theorem finish_reasons_witness:
  "chat_completion (JObj hello_response)
   \<and> get_streaming_chunk_size example_config \<noteq> 0
   \<and> \<not> tool_call_branch (JObj hello_response)
   \<and> simulate_streaming example_config (\<lambda>j. []) (\<lambda>k. 0) (JObj hello_response)
       = Inr (hello_chunks (base_event_data 0 hello_response))
   \<and> map finish_reason_of (butlast (hello_chunks (base_event_data 0 hello_response)))
       = [Some JNull, Some JNull, Some JNull]
   \<and> finish_reason_of (last (hello_chunks (base_event_data 0 hello_response))) = Some (JStr (py ''stop''))
   \<and> chat_completion (JObj tool_response)
   \<and> tool_call_branch (JObj tool_response)
   \<and> simulate_streaming example_config (\<lambda>j. []) (\<lambda>k. 0) (JObj tool_response) = Inr tool_chunks
   \<and> butlast tool_chunks = []
   \<and> finish_reason_of (last tool_chunks) = Some (JStr (py ''tool_calls''))"
proof -
  have w1: "chat_completion (JObj hello_response)"
    by (simp add: chat_completion_def choice_shape_def message_shape_def hello_response_def
          hello_choice_def hello_message_def)
  have w2: "chat_completion (JObj tool_response)"
    by (simp add: chat_completion_def choice_shape_def message_shape_def tool_response_def
          tool_message_def)
  have sz: "get_streaming_chunk_size example_config \<noteq> 0"
    by (simp add: get_streaming_chunk_size_def example_config_def)
  have run: "simulate_streaming example_config (\<lambda>j. []) (\<lambda>k. 0) (JObj hello_response)
     = Inr (hello_chunks (base_event_data 0 hello_response))"
    by (rule hello_run [OF hello_response_choices])
  have a: "\<not> tool_call_branch (JObj hello_response)"
    by (simp add: tool_call_branch_def hello_response_def hello_choice_def hello_message_def dict_get_def)
  have b: "tool_call_branch (JObj tool_response)"
    by (simp add: tool_call_branch_def tool_response_def tool_message_def dict_get_def)
  have c: "map finish_reason_of (butlast (hello_chunks (base_event_data 0 hello_response)))
       = [Some JNull, Some JNull, Some JNull]"
    by (simp add: hello_chunks_def finish_reason_of_chunk)
  have d: "butlast tool_chunks = []"
    by (simp add: tool_chunks_def)
  from finish_reasons [OF w1 sz, of "\<lambda>j. []" "\<lambda>k. 0"]
  have e: "finish_reason_of (last (hello_chunks (base_event_data 0 hello_response)))
             = Some (JStr (py ''stop''))"
    unfolding run using a by simp
  from finish_reasons [OF w2 sz, of "\<lambda>j. []" "\<lambda>k. 0"]
  have f: "finish_reason_of (last tool_chunks) = Some (JStr (py ''tool_calls''))"
    unfolding tool_run using b by simp
  show ?thesis
    using w1 w2 sz run tool_run a b c d e f by simp
qed

text \<open>
  C5. For a response whose first choice has a message with a truthy \<open>tool_calls\<close> (a
  non-empty list is one), whatever its \<open>content\<close>, the emitter returns exactly one chunk:
  its delta is the role \<open>"assistant"\<close>, the content \<open>None\<close> and the \<open>tool_calls\<close> as
  received, and its \<open>finish_reason\<close> is \<open>"tool_calls"\<close>.
\<close>

theorem tool_call_single_chunk:
  assumes "map_of d (py ''choices'') = Some (JArr (JObj c # rest))"
    and "map_of c (py ''message'') = Some (JObj m)"
    and "map_of m (py ''tool_calls'') = Some tc"
    and "py_truthy tc"
  shows "\<exists>ch. simulate_streaming cfg dumps now (JObj d) = Inr [ch]
           \<and> delta_of ch = Some (JObj [(py ''role'', JStr (py ''assistant'')),
                                       (py ''content'', JNull),
                                       (py ''tool_calls'', tc)])
           \<and> finish_reason_of ch = Some (JStr (py ''tool_calls''))"
  using assms
  by (simp add: simulate_streaming_def emit_choice_def dict_get_def Let_def
        delta_of_chunk finish_reason_of_chunk)

theorem tool_call_single_chunk_witness:
  "map_of tool_response (py ''choices'')
     = Some (JArr [JObj [(py ''index'', JInt 0), (py ''message'', JObj tool_message)]])
   \<and> map_of tool_message (py ''tool_calls'') = Some (JArr [JObj [(py ''id'', JStr (py ''call_1''))]])
   \<and> py_truthy (JArr [JObj [(py ''id'', JStr (py ''call_1''))]])
   \<and> map_of tool_message (py ''content'') = Some (JStr (py ''Hi''))
   \<and> (\<exists>ch. simulate_streaming example_config (\<lambda>j. []) (\<lambda>k. 0) (JObj tool_response) = Inr [ch]
          \<and> delta_of ch = Some (JObj [(py ''role'', JStr (py ''assistant'')),
                                      (py ''content'', JNull),
                                      (py ''tool_calls'', JArr [JObj [(py ''id'', JStr (py ''call_1''))]])])
          \<and> finish_reason_of ch = Some (JStr (py ''tool_calls'')))"
proof -
  have h1: "map_of tool_response (py ''choices'')
     = Some (JArr (JObj [(py ''index'', JInt 0), (py ''message'', JObj tool_message)] # []))"
    by (simp add: tool_response_def)
  have h2: "map_of [(py ''index'', JInt 0), (py ''message'', JObj tool_message)] (py ''message'')
     = Some (JObj tool_message)"
    by simp
  have h3: "map_of tool_message (py ''tool_calls'') = Some (JArr [JObj [(py ''id'', JStr (py ''call_1''))]])"
    by (simp add: tool_message_def)
  have h4: "py_truthy (JArr [JObj [(py ''id'', JStr (py ''call_1''))]])"
    by simp
  have h5: "map_of tool_message (py ''content'') = Some (JStr (py ''Hi''))"
    by (simp add: tool_message_def)
  show ?thesis
    using tool_call_single_chunk [OF h1 h2 h3 h4, of example_config "\<lambda>j. []" "\<lambda>k. 0"] h1 h3 h4 h5
    by simp
qed

text \<open>
  C9. Whatever the input, the \<open>choices\<close> of every emitted chunk is a list of one element,
  whose \<open>index\<close> is 0.
\<close>

theorem one_choice_index_zero:
  "\<forall>c \<in> set (emitted (simulate_streaming cfg dumps now r)).
     \<exists>e. jget (py ''choices'') c = Some (JArr [e]) \<and> jget (py ''index'') e = Some (JInt 0)"
proof (cases "simulate_streaming cfg dumps now r")
  case (Inl e)
  then show ?thesis by (simp add: emitted_def)
next
  case (Inr chunks)
  from simulate_streaming_form [OF Inr] obtain body base delta fin where
    cs: "chunks = body @ [chunk base delta fin]"
    and base: "map_of base (py ''choices'') = None"
    and body: "\<forall>c \<in> set body. \<exists>b dl. c = chunk b dl JNull \<and> map_of b (py ''choices'') = None"
    by blast
  have all: "\<forall>c \<in> set chunks. \<exists>b dl f. c = chunk b dl f \<and> map_of b (py ''choices'') = None"
  proof
    fix c assume "c \<in> set chunks"
    then consider "c \<in> set body" | "c = chunk base delta fin"
      unfolding cs by auto
    then show "\<exists>b dl f. c = chunk b dl f \<and> map_of b (py ''choices'') = None"
      using base body by cases blast+
  qed
  have "\<And>b dl f. map_of b (py ''choices'') = None \<Longrightarrow>
      \<exists>e. jget (py ''choices'') (chunk b dl f) = Some (JArr [e]) \<and> jget (py ''index'') e = Some (JInt 0)"
    by (simp add: jget_choices_chunk)
  with all show ?thesis
    unfolding Inr emitted_def by auto
qed

theorem one_choice_index_zero_witness:
  "emitted (simulate_streaming example_config (\<lambda>j. []) (\<lambda>k. 0) (JObj empty_choices_response)) \<noteq> []
   \<and> (\<exists>e. jget (py ''choices'')
             (hd (emitted (simulate_streaming example_config (\<lambda>j. []) (\<lambda>k. 0) (JObj empty_choices_response))))
           = Some (JArr [e]) \<and> jget (py ''index'') e = Some (JInt 0))"
proof -
  let ?cs = "emitted (simulate_streaming example_config (\<lambda>j. []) (\<lambda>k. 0) (JObj empty_choices_response))"
  have ne: "?cs \<noteq> []"
    by (simp add: simulate_streaming_def empty_choices_response_def escape_hatch_def emitted_def)
  then have "hd ?cs \<in> set ?cs" by simp
  with one_choice_index_zero [of example_config "\<lambda>j. []" "\<lambda>k. 0" "JObj empty_choices_response"] ne
  show ?thesis by blast
qed


lemma emit_choice_base:
  assumes "emit_choice cfg now d choice = Inr cs" and "c \<in> set cs"
  shows "\<exists>delta fin. c = chunk (base_event_data (now 0) d) delta fin"
proof -
  let ?base = "base_event_data (now 0) d"
  from emit_choice_form [OF assms(1)] obtain ch m where
    cases: "if py_truthy (dict_get m (py ''tool_calls'') JNull) then
                 cs = [chunk ?base
                         [(py ''role'', JStr (py ''assistant'')),
                          (py ''content'', JNull),
                          (py ''tool_calls'', dict_get m (py ''tool_calls'') JNull)]
                         (JStr (py ''tool_calls''))]
               else if py_truthy (dict_get m (py ''content'') (JStr [])) then
                 stream_content ?base (dict_get m (py ''content'') (JStr []))
                   (get_streaming_chunk_size cfg) = Inr cs
               else cs = [chunk ?base [] (JStr (py ''stop''))]"
    by blast
  show ?thesis
  proof (cases "py_truthy (dict_get m (py ''tool_calls'') JNull)")
    case True
    with cases assms(2) have "c = chunk ?base
                         [(py ''role'', JStr (py ''assistant'')),
                          (py ''content'', JNull),
                          (py ''tool_calls'', dict_get m (py ''tool_calls'') JNull)]
                         (JStr (py ''tool_calls''))" by simp
    then show ?thesis by blast
  next
    case nt: False
    show ?thesis
    proof (cases "py_truthy (dict_get m (py ''content'') (JStr []))")
      case True
      with nt cases have "stream_content ?base (dict_get m (py ''content'') (JStr []))
                   (get_streaming_chunk_size cfg) = Inr cs" by simp
      from stream_content_form [OF this] obtain body where
        "cs = body @ [chunk ?base [] (JStr (py ''stop''))]"
        "\<forall>c \<in> set body. \<exists>delta. c = chunk ?base delta JNull"
        by blast
      with assms(2) have "c = chunk ?base [] (JStr (py ''stop'')) \<or> (\<exists>delta. c = chunk ?base delta JNull)"
        by auto
      then show ?thesis by blast
    next
      case False
      with nt cases assms(2) have "c = chunk ?base [] (JStr (py ''stop''))" by simp
      then show ?thesis by blast
    qed
  qed
qed

lemma map_of_base_event_data:
  "map_of (base_event_data t d) (py ''id'') = Some (dict_get d (py ''id'') (JStr (py ''chatcmpl-default-id'')))"
  "map_of (base_event_data t d) (py ''object'') = Some (dict_get d (py ''object'') (JStr (py ''chat.completion.chunk'')))"
  "map_of (base_event_data t d) (py ''created'') = Some (dict_get d (py ''created'') (JInt t))"
  "map_of (base_event_data t d) (py ''model'') = Some (dict_get d (py ''model'') (JStr (py ''gpt-3.5-turbo-0613'')))"
  by (simp_all add: base_event_data_def)

text \<open>
  C2, as amended. Every emitted chunk carries the \<open>id\<close> of the source response, or
  \<open>"chatcmpl-default-id"\<close> when it has none. Where \<open>choices\<close> is a non-empty list, the
  chunk carries the \<open>created\<close> and \<open>model\<close> of the source, or the time of the run and
  \<open>"gpt-3.5-turbo-0613"\<close> when they are absent, and its \<open>object\<close> is
  \<open>"chat.completion.chunk"\<close> when the source has no \<open>object\<close>. In the other case, of a
  response with no usable \<open>choices\<close>, the \<open>object\<close> is \<open>"chat.completion.chunk"\<close>, the
  \<open>model\<close> is \<open>"unknown-model"\<close> and \<open>created\<close> is the time at which the chunk is built,
  whatever the source holds.
\<close>

theorem chunk_metadata:
  assumes "simulate_streaming cfg dumps now (JObj d) = Inr chunks" and "c \<in> set chunks"
  shows "jget (py ''id'') c = Some (dict_get d (py ''id'') (JStr (py ''chatcmpl-default-id'')))
         \<and> (if has_choices d then
               jget (py ''created'') c = Some (dict_get d (py ''created'') (JInt (now 0)))
               \<and> jget (py ''model'') c = Some (dict_get d (py ''model'') (JStr (py ''gpt-3.5-turbo-0613'')))
               \<and> (map_of d (py ''object'') = None \<longrightarrow>
                    jget (py ''object'') c = Some (JStr (py ''chat.completion.chunk'')))
             else
               jget (py ''object'') c = Some (JStr (py ''chat.completion.chunk''))
               \<and> jget (py ''model'') c = Some (JStr (py ''unknown-model''))
               \<and> (jget (py ''created'') c = Some (JInt (now 0))
                    \<or> jget (py ''created'') c = Some (JInt (now 1))))"
proof -
  from simulate_streaming_dict [OF assms(1)]
  have branch: "if has_choices d
               then \<exists>choice rest. map_of d (py ''choices'') = Some (JArr (choice # rest))
                       \<and> emit_choice cfg now d choice = Inr chunks
               else chunks = escape_hatch dumps now d"
    by simp
  show ?thesis
  proof (cases "has_choices d")
    case True
    with branch obtain choice where "emit_choice cfg now d choice = Inr chunks" by auto
    from emit_choice_base [OF this assms(2)] obtain delta fin where
      c: "c = chunk (base_event_data (now 0) d) delta fin" by blast
    show ?thesis
      unfolding c using True
      by (simp add: jget_base_chunk map_of_base_event_data dict_get_def)
  next
    case False
    with branch have "chunks = escape_hatch dumps now d" by simp
    with assms(2) have "c \<in> set (escape_hatch dumps now d)" by simp
    then show ?thesis
      using False by (auto simp: escape_hatch_def jget_base_chunk)
  qed
qed

theorem chunk_metadata_witness:
  "simulate_streaming example_config (\<lambda>j. []) (\<lambda>k. 7) (JObj hello_response)
     = Inr (hello_chunks (base_event_data 7 hello_response))
   \<and> has_choices hello_response
   \<and> map_of hello_response (py ''object'') = None
   \<and> jget (py ''id'') (hd (hello_chunks (base_event_data 7 hello_response))) = Some (JStr (py ''cmpl-1''))
   \<and> jget (py ''created'') (hd (hello_chunks (base_event_data 7 hello_response))) = Some (JInt 7)
   \<and> jget (py ''model'') (hd (hello_chunks (base_event_data 7 hello_response)))
       = Some (JStr (py ''gpt-3.5-turbo-0613''))
   \<and> jget (py ''object'') (hd (hello_chunks (base_event_data 7 hello_response)))
       = Some (JStr (py ''chat.completion.chunk''))"
proof -
  have run: "simulate_streaming example_config (\<lambda>j. []) (\<lambda>k. 7) (JObj hello_response)
     = Inr (hello_chunks (base_event_data 7 hello_response))"
    by (rule hello_run [OF hello_response_choices])
  have mem: "hd (hello_chunks (base_event_data 7 hello_response))
               \<in> set (hello_chunks (base_event_data 7 hello_response))"
    by (simp add: hello_chunks_def)
  have hc: "has_choices hello_response"
    by (simp add: has_choices_def hello_response_def)
  have no: "map_of hello_response (py ''object'') = None"
    by (simp add: hello_response_def)
  have vals: "dict_get hello_response (py ''id'') (JStr (py ''chatcmpl-default-id'')) = JStr (py ''cmpl-1'')"
    "dict_get hello_response (py ''created'') (JInt 7) = JInt 7"
    "dict_get hello_response (py ''model'') (JStr (py ''gpt-3.5-turbo-0613'')) = JStr (py ''gpt-3.5-turbo-0613'')"
    by (simp_all add: dict_get_def hello_response_def)
  show ?thesis
    using chunk_metadata [OF run mem] run hc no vals by simp
qed

text \<open>
  C2 as stated fails twice. A response with \<open>object = "chat.completion"\<close> and a choice
  yields chunks with that \<open>object\<close>; a response with an empty \<open>choices\<close>, a \<open>model\<close>
  and a \<open>created\<close> yields chunks with the model \<open>"unknown-model"\<close> and the time of
  the run.
\<close>

theorem chunk_metadata_counterexample:
  "jget (py ''object'')
     (hd (emitted (simulate_streaming example_config (\<lambda>j. []) (\<lambda>k. 7) (JObj completion_response))))
     = Some (JStr (py ''chat.completion''))
   \<and> jget (py ''model'') (JObj empty_choices_response) = Some (JStr (py ''llama''))
   \<and> jget (py ''model'')
       (hd (emitted (simulate_streaming example_config (\<lambda>j. []) (\<lambda>k. 7) (JObj empty_choices_response))))
       = Some (JStr (py ''unknown-model''))
   \<and> jget (py ''created'') (JObj empty_choices_response) = Some (JInt 1700000000)
   \<and> jget (py ''created'')
       (hd (emitted (simulate_streaming example_config (\<lambda>j. []) (\<lambda>k. 7) (JObj empty_choices_response))))
       = Some (JInt 7)"
proof -
  have a: "jget (py ''object'')
     (hd (emitted (simulate_streaming example_config (\<lambda>j. []) (\<lambda>k. 7) (JObj completion_response))))
     = Some (JStr (py ''chat.completion''))"
    unfolding hello_run [OF completion_response_choices] emitted_def
    by (simp add: hello_chunks_def jget_base_chunk map_of_base_event_data dict_get_def
          completion_response_def)
  have b: "jget (py ''model'') (JObj empty_choices_response) = Some (JStr (py ''llama''))"
    "jget (py ''created'') (JObj empty_choices_response) = Some (JInt 1700000000)"
    by (simp_all add: empty_choices_response_def)
  have c: "emitted (simulate_streaming example_config (\<lambda>j. []) (\<lambda>k. 7) (JObj empty_choices_response))
             = escape_hatch (\<lambda>j. []) (\<lambda>k. 7) empty_choices_response"
    by (simp add: simulate_streaming_def emitted_def empty_choices_response_def)
  have d: "jget (py ''model'') (hd (escape_hatch (\<lambda>j. []) (\<lambda>k. 7) empty_choices_response))
             = Some (JStr (py ''unknown-model''))"
    "jget (py ''created'') (hd (escape_hatch (\<lambda>j. []) (\<lambda>k. 7) empty_choices_response))
             = Some (JInt 7)"
    by (simp_all add: escape_hatch_def jget_base_chunk)
  show ?thesis
    using a b d unfolding c by simp
qed


lemma emit_choice_clock:
  "now1 0 = now2 0 \<Longrightarrow> emit_choice cfg now1 d choice = emit_choice cfg now2 d choice"
  unfolding emit_choice_def by (simp cong: json.case_cong)

lemma escape_hatch_clock:
  "now1 0 = now2 0 \<Longrightarrow> now1 1 = now2 1 \<Longrightarrow> escape_hatch dumps now1 d = escape_hatch dumps now2 d"
  unfolding escape_hatch_def by simp

lemma simulate_streaming_clock:
  assumes "now1 0 = now2 0" and "now1 1 = now2 1"
  shows "simulate_streaming cfg dumps now1 r = simulate_streaming cfg dumps now2 r"
proof (cases r)
  case (JObj d)
  have em: "\<And>choice. emit_choice cfg now1 d choice = emit_choice cfg now2 d choice"
    using assms(1) by (rule emit_choice_clock)
  have esc: "escape_hatch dumps now1 d = escape_hatch dumps now2 d"
    using assms by (rule escape_hatch_clock)
  show ?thesis
    unfolding JObj simulate_streaming_def json.case em esc ..
qed (simp_all add: simulate_streaming_def)

lemma base_event_data_created:
  "map_of d (py ''created'') = Some v \<Longrightarrow> base_event_data t d = base_event_data t' d"
  by (simp add: base_event_data_def dict_get_def)

lemma emit_choice_created:
  assumes "map_of d (py ''created'') = Some v"
  shows "emit_choice cfg now1 d choice = emit_choice cfg now2 d choice"
proof -
  have "base_event_data (now1 0) d = base_event_data (now2 0) d"
    using assms by (rule base_event_data_created)
  then show ?thesis
    unfolding emit_choice_def by (simp cong: json.case_cong)
qed

text \<open>
  C6, as amended. Two runs of the emitter on the same response and configuration return
  the same result when the readings of the clock they take are the same, and whatever
  the clock when the response has a non-empty list of \<open>choices\<close> and a \<open>created\<close>.
\<close>

theorem clock_readings:
  assumes "(now1 0 = now2 0 \<and> now1 1 = now2 1)
           \<or> (has_choices d \<and> map_of d (py ''created'') \<noteq> None)"
  shows "simulate_streaming cfg dumps now1 (JObj d) = simulate_streaming cfg dumps now2 (JObj d)"
proof (cases "now1 0 = now2 0 \<and> now1 1 = now2 1")
  case True
  then have "now1 0 = now2 0" and "now1 1 = now2 1" by simp_all
  then show ?thesis by (rule simulate_streaming_clock)
next
  case False
  with assms have hc: "has_choices d" and cr: "map_of d (py ''created'') \<noteq> None"
    by blast+
  from cr obtain v where v: "map_of d (py ''created'') = Some v" by blast
  from hc obtain choice rest where ch: "map_of d (py ''choices'') = Some (JArr (choice # rest))"
    unfolding has_choices_iff by blast
  have "emit_choice cfg now1 d choice = emit_choice cfg now2 d choice"
    using v by (rule emit_choice_created)
  then show ?thesis
    unfolding simulate_streaming_def by (simp add: ch)
qed

theorem clock_readings_witness:
  "has_choices completion_response
   \<and> map_of completion_response (py ''created'') = Some (JInt 1700000000)
   \<and> simulate_streaming example_config (\<lambda>j. []) (\<lambda>k. 100) (JObj completion_response)
       = simulate_streaming example_config (\<lambda>j. []) (\<lambda>k. 200) (JObj completion_response)"
proof -
  have a: "has_choices completion_response"
    by (simp add: has_choices_def completion_response_def)
  have b: "map_of completion_response (py ''created'') = Some (JInt 1700000000)"
    by (simp add: completion_response_def)
  have "(((\<lambda>k. 100) 0 = ((\<lambda>k. 200) 0 :: int) \<and> (\<lambda>k. 100) 1 = ((\<lambda>k. 200) 1 :: int))
           \<or> (has_choices completion_response \<and> map_of completion_response (py ''created'') \<noteq> None))"
    using a b by simp
  from clock_readings [OF this] a b show ?thesis by simp
qed

text \<open>
  C6 as stated fails on a response without \<open>created\<close>: two runs at different times
  return different chunks.
\<close>

theorem clock_readings_counterexample:
  "map_of hello_response (py ''created'') = None
   \<and> simulate_streaming example_config (\<lambda>j. []) (\<lambda>k. 100) (JObj hello_response)
       \<noteq> simulate_streaming example_config (\<lambda>j. []) (\<lambda>k. 200) (JObj hello_response)"
proof -
  have "base_event_data 100 hello_response \<noteq> base_event_data 200 hello_response"
    by (simp add: base_event_data_def dict_get_def hello_response_def)
  then show ?thesis
    unfolding hello_run [OF hello_response_choices]
    by (simp add: hello_chunks_def chunk_def hello_response_def)
qed


section \<open>Properties of the handler\<close>

lemma perform_request_fault:
  assumes "backend (outbound_request cfg method path hdrs data json_data) = Inl e"
  shows "perform_request cfg backend method path hdrs data json_data =
           ([RequestsRequest (outbound_request cfg method path hdrs data json_data),
             SendError
               (if is_SSLError e then 502
                else if is_ConnectionError e then 503
                else if is_Timeout e then 504 else 500)
               (if is_SSLError e then py ''SSL Error: '' @ text_of e
                else if is_ConnectionError e then py ''Service Unavailable: Connection Error: '' @ text_of e
                else if is_Timeout e then py ''Gateway Timeout''
                else py ''Internal Server Error: '' @ text_of e)],
            None)"
  using assms by (simp add: perform_request_def Let_def)

text \<open>
  C7, as amended. When \<open>requests.request\<close> raises, \<open>_perform_request\<close> calls the
  backend once, returns no response and sends one error reply, whose status is that of
  the first \<open>except\<close> clause the exception matches: 502 for an \<open>SSLError\<close>, 503 for any
  other \<open>ConnectionError\<close> (a \<open>ConnectTimeout\<close> is one), 504 for a \<open>Timeout\<close> that is
  not a \<open>ConnectionError\<close>, and 500 for the rest.
\<close>

theorem transport_fault_status:
  assumes "backend (outbound_request cfg method path hdrs data json_data) = Inl e"
  shows "snd (perform_request cfg backend method path hdrs data json_data) = None
         \<and> backend_calls (fst (perform_request cfg backend method path hdrs data json_data)) = 1
         \<and> replies (fst (perform_request cfg backend method path hdrs data json_data)) =
             [if is_SSLError e then 502
              else if is_ConnectionError e then 503
              else if is_Timeout e then 504 else 500]"
  using assms
  by (simp add: perform_request_def Let_def backend_calls_def replies_def List.map_filter_simps)

theorem transport_fault_status_witness:
  "(\<lambda>req. Inl (ReadTimeout (py ''read timed out'')))
       (outbound_request example_config (py ''GET'') (py ''/v1/models'') [] None None)
     = (Inl (ReadTimeout (py ''read timed out'')) :: fault + response)
   \<and> snd (perform_request example_config (\<lambda>req. Inl (ReadTimeout (py ''read timed out'')))
            (py ''GET'') (py ''/v1/models'') [] None None) = None
   \<and> backend_calls (fst (perform_request example_config (\<lambda>req. Inl (ReadTimeout (py ''read timed out'')))
            (py ''GET'') (py ''/v1/models'') [] None None)) = 1
   \<and> replies (fst (perform_request example_config (\<lambda>req. Inl (ReadTimeout (py ''read timed out'')))
            (py ''GET'') (py ''/v1/models'') [] None None)) = [504]"
proof -
  have h: "(\<lambda>req. Inl (ReadTimeout (py ''read timed out'')))
       (outbound_request example_config (py ''GET'') (py ''/v1/models'') [] None None)
     = (Inl (ReadTimeout (py ''read timed out'')) :: fault + response)"
    by simp
  from transport_fault_status [of "\<lambda>req. Inl (ReadTimeout (py ''read timed out''))" example_config
      "py ''GET''" "py ''/v1/models''" "[]" None None "ReadTimeout (py ''read timed out'')", OF h]
  show ?thesis
    using h by (simp add: ReadTimeout_def)
qed

text \<open>
  C7 as stated fails for a deadline that passes while connecting: the exception is a
  \<open>Timeout\<close>, and the client receives 503, not 504.
\<close>

theorem transport_fault_status_counterexample:
  "is_Timeout (ConnectTimeout (py ''timed out''))
   \<and> timing_out_backend
        (outbound_request example_config (py ''POST'') (py ''/v1/chat/completions'') empty_object_headers
           None (Some (JObj [(py ''stream'', JBool False)])))
       = Inl (ConnectTimeout (py ''timed out''))
   \<and> replies (fst (do_POST example_lib example_config timing_out_backend (\<lambda>k. 0)
                     (py ''/v1/chat/completions'') empty_object_headers (ascii ''{}''))) = [503]"
proof -
  have "replies (fst (do_POST example_lib example_config timing_out_backend (\<lambda>k. 0)
                     (py ''/v1/chat/completions'') empty_object_headers (ascii ''{}''))) = [503]"
    by code_simp
  then show ?thesis
    by (simp add: ConnectTimeout_def timing_out_backend_def)
qed

text \<open>Both handlers stop after \<open>_perform_request\<close> has returned \<open>None\<close>.\<close>

lemma do_GET_fault:
  assumes "backend (outbound_request cfg (py ''GET'') (py ''/v1/models'') hdrs None None) = Inl e"
  shows "do_GET cfg backend (py ''/v1/models'') hdrs =
           fst (perform_request cfg backend (py ''GET'') (py ''/v1/models'') hdrs None None)"
  using assms by (simp add: do_GET_def perform_request_def Let_def)

lemma do_POST_fault:
  assumes "header_get hdrs (py ''Content-Length'') = Some v"
    and "py_int lib v = Some n"
    and "rfile_read rfile n = Inr body"
    and "utf8_decode lib body = Some txt"
    and "json_loads lib txt = Some request_data"
    and "set_stream_false request_data = Inr forced"
    and "backend (outbound_request cfg (py ''POST'') path hdrs None (Some forced)) = Inl e"
  shows "do_POST lib cfg backend now path hdrs rfile =
           (RfileRead n # fst (perform_request cfg backend (py ''POST'') path hdrs None (Some forced)), None)"
  using assms by (simp add: do_POST_def perform_request_def Let_def)

text \<open>
  C8, as amended. For a POST request with a \<open>Content-Length\<close> that \<open>int\<close> reads, whose
  body of that length decodes as UTF-8 into a text that \<open>json.loads\<close> refuses, the
  handler sends the one reply 400 and makes no request to the backend.
\<close>

theorem invalid_json_400:
  assumes "header_get hdrs (py ''Content-Length'') = Some v"
    and "py_int lib v = Some n"
    and "rfile_read rfile n = Inr body"
    and "utf8_decode lib body = Some txt"
    and "json_loads lib txt = None"
  shows "do_POST lib cfg backend now path hdrs rfile =
           ([RfileRead n, SendError 400 (py ''Bad Request: Invalid JSON payload'')], None)
         \<and> replies (fst (do_POST lib cfg backend now path hdrs rfile)) = [400]
         \<and> backend_calls (fst (do_POST lib cfg backend now path hdrs rfile)) = 0"
  using assms by (simp add: do_POST_def replies_def backend_calls_def List.map_filter_simps)

theorem invalid_json_400_witness:
  "header_get bad_body_headers (py ''Content-Length'') = Some (py ''8'')
   \<and> py_int example_lib (py ''8'') = Some 8
   \<and> rfile_read (ascii ''not json'') 8 = Inr (ascii ''not json'')
   \<and> utf8_decode example_lib (ascii ''not json'') = Some (py ''not json'')
   \<and> json_loads example_lib (py ''not json'') = None
   \<and> do_POST example_lib example_config garbled_backend (\<lambda>k. 0) (py ''/v1/chat/completions'')
         bad_body_headers (ascii ''not json'')
       = ([RfileRead 8, SendError 400 (py ''Bad Request: Invalid JSON payload'')], None)
   \<and> replies (fst (do_POST example_lib example_config garbled_backend (\<lambda>k. 0)
                     (py ''/v1/chat/completions'') bad_body_headers (ascii ''not json''))) = [400]
   \<and> backend_calls (fst (do_POST example_lib example_config garbled_backend (\<lambda>k. 0)
                     (py ''/v1/chat/completions'') bad_body_headers (ascii ''not json''))) = 0"
proof -
  have h1: "header_get bad_body_headers (py ''Content-Length'') = Some (py ''8'')"
    by code_simp
  have h2: "py_int example_lib (py ''8'') = Some 8"
    by code_simp
  have h3: "rfile_read (ascii ''not json'') 8 = Inr (ascii ''not json'')"
    by code_simp
  have h4: "utf8_decode example_lib (ascii ''not json'') = Some (py ''not json'')"
    by code_simp
  have h5: "json_loads example_lib (py ''not json'') = None"
    by code_simp
  from invalid_json_400 [OF h1 h2 h3 h4 h5, of example_config garbled_backend "\<lambda>k. 0"
        "py ''/v1/chat/completions''"]
  show ?thesis
    using h1 h2 h3 h4 h5 by blast
qed

text \<open>
  C8 as stated fails for a request without \<open>Content-Length\<close>: its body is not JSON, and
  the handler raises a \<open>TypeError\<close> and sends no reply.
\<close>

theorem invalid_json_400_counterexample:
  "utf8_decode example_lib (ascii ''not json'') = Some (py ''not json'')
   \<and> json_loads example_lib (py ''not json'') = None
   \<and> do_POST example_lib example_config garbled_backend (\<lambda>k. 0) (py ''/v1/chat/completions'')
         no_length_headers (ascii ''not json'') = ([], Some TypeError)"
  by code_simp

text \<open>A body that is not UTF-8 raises a \<open>UnicodeDecodeError\<close>, which no clause handles.\<close>

lemma undecodable_body_raises:
  assumes "header_get hdrs (py ''Content-Length'') = Some v"
    and "py_int lib v = Some n"
    and "rfile_read rfile n = Inr body"
    and "utf8_decode lib body = None"
  shows "do_POST lib cfg backend now path hdrs rfile = ([RfileRead n], Some UnicodeDecodeError)"
  using assms by (simp add: do_POST_def)

text \<open>
  C10. For a POST request without \<open>Content-Length\<close>, or with one that \<open>int\<close> refuses,
  \<open>do_POST\<close> raises (a \<open>TypeError\<close>, a \<open>ValueError\<close>) before any event: no read of the
  body, no reply, no request to the backend.
\<close>

theorem content_length_required:
  assumes "header_get hdrs (py ''Content-Length'') = None
           \<or> (\<exists>v. header_get hdrs (py ''Content-Length'') = Some v \<and> py_int lib v = None)"
  shows "do_POST lib cfg backend now path hdrs rfile =
           ([], Some (if header_get hdrs (py ''Content-Length'') = None then TypeError else ValueError))"
  using assms by (auto simp: do_POST_def)

theorem content_length_required_witness:
  "header_get no_length_headers (py ''Content-Length'') = None
   \<and> do_POST example_lib example_config garbled_backend (\<lambda>k. 0) (py ''/v1/chat/completions'')
         no_length_headers (ascii ''{}'') = ([], Some TypeError)
   \<and> header_get bad_length_headers (py ''Content-Length'') = Some (py ''eight'')
   \<and> py_int example_lib (py ''eight'') = None
   \<and> do_POST example_lib example_config garbled_backend (\<lambda>k. 0) (py ''/v1/chat/completions'')
         bad_length_headers (ascii ''{}'') = ([], Some ValueError)"
proof -
  have h1: "header_get no_length_headers (py ''Content-Length'') = None"
    by code_simp
  have h2: "header_get bad_length_headers (py ''Content-Length'') = Some (py ''eight'')"
    by code_simp
  have h3: "py_int example_lib (py ''eight'') = None"
    by code_simp
  have a: "header_get no_length_headers (py ''Content-Length'') = None
           \<or> (\<exists>v. header_get no_length_headers (py ''Content-Length'') = Some v \<and> py_int example_lib v = None)"
    using h1 by simp
  have b: "header_get bad_length_headers (py ''Content-Length'') = None
           \<or> (\<exists>v. header_get bad_length_headers (py ''Content-Length'') = Some v \<and> py_int example_lib v = None)"
    using h2 h3 by simp
  show ?thesis
    using content_length_required [OF a, of example_config garbled_backend "\<lambda>k. 0"
        "py ''/v1/chat/completions''" "ascii ''{}''"]
      content_length_required [OF b, of example_config garbled_backend "\<lambda>k. 0"
        "py ''/v1/chat/completions''" "ascii ''{}''"]
      h1 h2 h3
    by simp
qed

lemma unparseable_body_reply:
  assumes "response_ok r" and "status_code r = 200"
    and "sublist (py ''application/json'') (header_get_default (headers r) (py ''Content-Type'') [])"
    and "response_json lib (content r) = None"
  shows "answer_post lib cfg now r = (sse_headers @ [WfileWrite (content r)], None)"
  using assms by (simp add: answer_post_def)

text \<open>
  C3, on a backend response with status 200, the content type \<open>application/json\<close> and
  the body \<open>not json\<close>. The handler has sent the status and the three headers of an event
  stream before it parses the body, and then writes the body as it is: the client
  receives none of the headers that \<open>passthrough\<close> forwards for the same response.
\<close>

theorem unparseable_body_headers:
  "status_code garbled_response = 200
   \<and> header_get (headers garbled_response) (py ''content-type'') = Some (py ''application/json'')
   \<and> response_json example_lib (content garbled_response) = None
   \<and> drop 2 (fst (do_POST example_lib example_config garbled_backend (\<lambda>k. 0)
                    (py ''/v1/chat/completions'') empty_object_headers (ascii ''{}'')))
       = [SendResponse 200,
          SendHeader (py ''Content-Type'') (py ''text/event-stream''),
          SendHeader (py ''Cache-Control'') (py ''no-cache''),
          SendHeader (py ''Connection'') (py ''close''),
          EndHeaders,
          WfileWrite (ascii ''not json'')]
   \<and> passthrough garbled_response
       = [SendResponse 200,
          SendHeader (py ''Content-Type'') (py ''application/json''),
          SendHeader (py ''Content-Length'') (py ''8''),
          EndHeaders,
          WfileWrite (ascii ''not json'')]"
  by code_simp


text \<open>
  A backend response with a status from 400 to 599 is falsy, and \<open>do_POST\<close> and
  \<open>do_GET\<close> write nothing for it.
\<close>

lemma error_status_unanswered:
  "400 \<le> status_code r \<Longrightarrow> status_code r < 600 \<Longrightarrow> answer_post lib cfg now r = ([], None)"
  by (simp add: answer_post_def response_ok_def)

end
